theory Spec2Isabelle
  imports Complex_Main
begin

section \<open>Numbers and dates\<close>

text \<open>
  The program is TypeScript. A \<open>number\<close> is a double. The cycle count, the phase and
  the age of \<open>getMoonData\<close> and the phase of \<open>MoonVisual\<close> are modelled as reals,
  without rounding; NaN and the infinities are outside the model. In the illuminated
  fraction and in the rise, set and transit times the rounding of every operation is
  modelled as well (\<open>fl64\<close> below): there it decides whether a value is exactly 0.5,
  and on which side of a whole millisecond a time falls. What is proved of these times
  is proved for every age in the range of the age, so it does not depend on how the
  age was rounded. A \<open>Date\<close> holds a time value, a whole number of milliseconds since
  the Unix epoch, or is an Invalid Date. The input date of \<open>getMoonData\<close> is a valid
  Date and is given by its time value.
\<close>

datatype Date = TimeValue int | InvalidDate

text \<open>\<open>d.getTime()\<close>: the time value as a number, NaN (here \<open>None\<close>) for an Invalid Date.\<close>

definition getTime :: "Date \<Rightarrow> real option" where
  "getTime d = (case d of TimeValue t \<Rightarrow> Some (real_of_int t) | InvalidDate \<Rightarrow> None)"

text \<open>
  ECMAScript's ToIntegerOrInfinity on a finite number: truncation toward zero.
\<close>

definition ToInteger :: "real \<Rightarrow> int" where
  "ToInteger x = (if 0 \<le> x then \<lfloor>x\<rfloor> else \<lceil>x\<rceil>)"

text \<open>
  \<open>new Date(v)\<close> for a number \<open>v\<close>: the language's TimeClip. NaN and every value
  beyond 8.64e15 ms in magnitude give an Invalid Date; any other value is truncated to
  whole milliseconds.
\<close>

definition new_Date :: "real option \<Rightarrow> Date" where
  "new_Date v = (case v of
      None \<Rightarrow> InvalidDate
    | Some x \<Rightarrow> if \<bar>x\<bar> > 8640000000000000 then InvalidDate else TimeValue (ToInteger x))"

text \<open>
  The result of an arithmetic operation is the double nearest to the exact result, a tie
  going to the double with the even significand: 53 significant bits, on a grid no finer
  than \<open>2 powr - 1074\<close>. \<open>rne\<close> rounds to the nearest whole number, ties to even, and
  \<open>fl64\<close> rounds a real to a double. Overflow is outside the model: no number of the
  program comes near to it.
\<close>

definition rne :: "real \<Rightarrow> int" where
  "rne x = (let f = \<lfloor>x\<rfloor>; d = x - real_of_int f in
      if d < 1 / 2 then f else if 1 / 2 < d then f + 1 else if even f then f else f + 1)"

definition fl64 :: "real \<Rightarrow> real" where
  "fl64 x = (if x = 0 then 0 else
      let e = max \<lfloor>log 2 \<bar>x\<bar>\<rfloor> (- 1022); g = 2 powr real_of_int (e - 52)
      in real_of_int (rne (x / g)) * g)"

text \<open>
  Two Date methods depend on the time zone of the machine the program runs on. They are
  parameters of the model: \<open>getTimezoneOffset h t\<close> is what \<open>getTimezoneOffset()\<close>
  returns (minutes) on a Date with time value \<open>t\<close>, and \<open>setHours0 h t\<close> is the Date
  that \<open>setHours(0, 0, 0, 0)\<close> leaves behind: local midnight of the day of \<open>t\<close>.
  The language leaves the values of \<open>Math.cos\<close> to the engine, so the engine's cosine
  is a parameter too.
\<close>

record Host =
  getTimezoneOffset :: "int \<Rightarrow> real"
  setHours0 :: "int \<Rightarrow> Date"
  Math_cos :: "real \<Rightarrow> real"

text \<open>A machine whose local time is UTC and whose cosine is correctly rounded.\<close>

definition UTC :: Host where
  "UTC = \<lparr> getTimezoneOffset = (\<lambda>t. 0),
           setHours0 = (\<lambda>t. TimeValue (t - t mod 86400000)),
           Math_cos = (\<lambda>x. fl64 (cos x)) \<rparr>"

section \<open>types.ts\<close>

datatype MoonPhaseName =
    NEW_MOON | WAXING_CRESCENT | FIRST_QUARTER | WAXING_GIBBOUS
  | FULL_MOON | WANING_GIBBOUS | LAST_QUARTER | WANING_CRESCENT

text \<open>
  \<open>MoonData\<close>. The fields \<open>rise\<close>, \<open>set\<close> and \<open>transit\<close> have type \<open>Date | null\<close>:
  \<open>None\<close> is null. The field \<open>set\<close> is called \<open>set_t\<close> here.
\<close>

record MoonData =
  phase :: real
  age :: real
  fraction :: real
  name :: MoonPhaseName
  rise :: "Date option"
  set_t :: "Date option"
  transit :: "Date option"
  distance :: real

section \<open>services/moonService.ts\<close>

definition SYNODIC_MONTH :: real where
  "SYNODIC_MONTH = 29.53058867"

definition toJulian :: "Host \<Rightarrow> int \<Rightarrow> real" where
  "toJulian h date =
     real_of_int date / 86400000 - getTimezoneOffset h date / 1440 + 2440587.5"

text \<open>\<open>normalize\<close> of the source (it has no caller there).\<close>

definition normalize_value :: "real \<Rightarrow> real" where
  "normalize_value v =
     (let v1 = v - real_of_int \<lfloor>v\<rfloor> in if v1 < 0 then v1 + 1 else v1)"

text \<open>\<open>Math.PI\<close> is the double nearest to pi.\<close>

definition Math_PI :: real where
  "Math_PI = fl64 pi"

text \<open>
  The illuminated fraction of \<open>getMoonData\<close>, as a function of its local \<open>phase\<close>:
  the engine's cosine, and every product and difference rounded.
\<close>

definition fraction_of :: "Host \<Rightarrow> real \<Rightarrow> real" where
  "fraction_of h ph =
     (let angle = fl64 (fl64 (ph * 2) * Math_PI)
      in fl64 (0.5 * fl64 (1 - Math_cos h angle)))"

text \<open>
  The chain of comparisons of \<open>getMoonData\<close> that determines \<open>name\<close>, as a function
  of its local \<open>age\<close>.
\<close>

definition name_of :: "real \<Rightarrow> MoonPhaseName" where
  "name_of a =
     (if a < 1.84566 then NEW_MOON
      else if a < 5.53699 then WAXING_CRESCENT
      else if a < 9.22831 then FIRST_QUARTER
      else if a < 12.91963 then WAXING_GIBBOUS
      else if a < 16.61096 then FULL_MOON
      else if a < 20.30228 then WANING_GIBBOUS
      else if a < 23.99361 then LAST_QUARTER
      else if a < 27.68493 then WANING_CRESCENT
      else NEW_MOON)"

definition normalizeDate :: "Date \<Rightarrow> Date \<Rightarrow> Date" where
  "normalizeDate d base = d"

text \<open>
  The last part of \<open>getMoonData\<close>, from \<open>riseOffsetHours\<close> to \<open>transit\<close>, as a
  function of its locals \<open>age\<close> and \<open>dayStart\<close>. The literal \<open>0.8\<close> is the double
  nearest to 0.8; the other literals are whole numbers. A sum or quotient with NaN is
  NaN: the arithmetic on \<open>getTime\<close> results maps over \<open>option\<close>.
\<close>

definition moonTimes :: "real \<Rightarrow> Date \<Rightarrow> Date \<times> Date \<times> Date" where
  "moonTimes a dayStart =
     (let riseOffsetHours = fl64 (6 + fl64 (a * fl64 0.8));
          setOffsetHours = fl64 (18 + fl64 (a * fl64 0.8));
          rise = new_Date (map_option (\<lambda>t. fl64 (t + fl64 (riseOffsetHours * 3600000)))
                             (getTime dayStart));
          set = new_Date (map_option (\<lambda>t. fl64 (t + fl64 (setOffsetHours * 3600000)))
                            (getTime dayStart));
          transit = new_Date (case (getTime rise, getTime set) of
                                (Some r, Some s) \<Rightarrow> Some (fl64 (fl64 (r + s) / 2))
                              | _ \<Rightarrow> None)
      in (rise, set, transit))"

text \<open>
  \<open>getMoonData\<close>. The mean elements \<open>D\<close>, \<open>L\<close>, \<open>M\<close>, \<open>F\<close>, \<open>l\<close> and \<open>longitude\<close> of
  the source are computed and never read; they are left out.
\<close>

definition getMoonData :: "Host \<Rightarrow> int \<Rightarrow> real \<Rightarrow> real \<Rightarrow> MoonData" where
  "getMoonData h date lat lng =
     (let jd = toJulian h date;
          knownNewMoonJD = 2460321.998;
          daysSinceNew = jd - knownNewMoonJD;
          cycles = daysSinceNew / SYNODIC_MONTH;
          currentCyclePhase = cycles - real_of_int \<lfloor>cycles\<rfloor>;
          age = currentCyclePhase * SYNODIC_MONTH;
          phase = currentCyclePhase;
          fraction = fraction_of h phase;
          name = name_of age;
          dayStart = setHours0 h date;
          (rise, set, transit) = moonTimes age dayStart
      in \<lparr> phase = phase, age = age, fraction = fraction, name = name,
           rise = Some (normalizeDate rise dayStart),
           set_t = Some (normalizeDate set dayStart),
           transit = Some (normalizeDate transit dayStart),
           distance = 384400 \<rparr>)"

text \<open>
  The bands of the specification (data model, PhaseNameBand; phase calculator, step 6),
  written from its words: half-open intervals \<open>[lo, hi)\<close> of the age domain, each
  bound to a phase name, the last one wrapping to the new moon. They are compared with
  \<open>name_of\<close> below.
\<close>

definition bands :: "(real \<times> real \<times> MoonPhaseName) list" where
  "bands =
     [(0, 1.84566, NEW_MOON),
      (1.84566, 5.53699, WAXING_CRESCENT),
      (5.53699, 9.22831, FIRST_QUARTER),
      (9.22831, 12.91963, WAXING_GIBBOUS),
      (12.91963, 16.61096, FULL_MOON),
      (16.61096, 20.30228, WANING_GIBBOUS),
      (20.30228, 23.99361, LAST_QUARTER),
      (23.99361, 27.68493, WANING_CRESCENT),
      (27.68493, 29.53058867, NEW_MOON)]"

definition in_band :: "real \<Rightarrow> real \<times> real \<times> MoonPhaseName \<Rightarrow> bool" where
  "in_band a b = (case b of (lo, hi, n) \<Rightarrow> lo \<le> a \<and> a < hi)"

definition band_name :: "real \<times> real \<times> MoonPhaseName \<Rightarrow> MoonPhaseName" where
  "band_name b = (case b of (lo, hi, n) \<Rightarrow> n)"

section \<open>components/MoonVisual.tsx\<close>

text \<open>
  The component computes the string \<open>d\<close>, the path data of the white shape in the
  mask, and nothing else of what it renders depends on the phase. A path data string is
  modelled by its sequence of commands: \<open>M x y\<close> is \<open>MoveTo x y\<close>, and
  \<open>A rx ry x-axis-rotation large-arc-flag sweep-flag x y\<close> is \<open>ArcTo\<close> with the
  same seven arguments, the two flags as booleans. The empty string is the empty list.
\<close>

datatype PathCmd =
    MoveTo real real
  | ArcTo real real real bool bool real real

type_synonym PathData = "PathCmd list"

definition terminatorWidth :: "real \<Rightarrow> real" where
  "terminatorWidth ph = (let r = 48 in r * cos (ph * 2 * pi))"

text \<open>The nested conditional that first assigns \<open>d\<close>: one path per quarter.\<close>

definition MoonVisual_regime :: "real \<Rightarrow> PathData" where
  "MoonVisual_regime ph =
     (if ph < 0.5 then
        (if ph < 0.25 then
           [MoveTo 50 2, ArcTo 48 48 0 False True 50 98,
            ArcTo \<bar>terminatorWidth ph\<bar> 48 0 False False 50 2]
         else
           [MoveTo 50 2, ArcTo 48 48 0 False True 50 98,
            ArcTo \<bar>terminatorWidth ph\<bar> 48 0 False True 50 2])
      else
        (if ph < 0.75 then
           [MoveTo 50 2, ArcTo 48 48 0 False False 50 98,
            ArcTo \<bar>terminatorWidth ph\<bar> 48 0 False True 50 2]
         else
           [MoveTo 50 2, ArcTo 48 48 0 False False 50 98,
            ArcTo \<bar>terminatorWidth ph\<bar> 48 0 False False 50 2]))"

definition full_circle :: PathData where
  "full_circle = [MoveTo 50 2, ArcTo 48 48 0 True True 50 98, ArcTo 48 48 0 True True 50 2]"

text \<open>The value of \<open>d\<close> that reaches the mask, after the two overriding assignments.\<close>

definition MoonVisual :: "real \<Rightarrow> PathData" where
  "MoonVisual ph =
     (let d = MoonVisual_regime ph;
          d = (if ph < 0.01 \<or> ph > 0.99 then [] else d);
          d = (if \<bar>ph - 0.5\<bar> < 0.01 then full_circle else d)
      in d)"

section \<open>The geometry of the emitted path\<close>

text \<open>
  What a path means is fixed by SVG, not by the program. Every arc the program emits
  has rotation 0 and joins two points on a vertical line that are exactly \<open>2 * ry\<close>
  apart, so it is half of the ellipse centred at the midpoint of the two points, with
  semi-axes \<open>rx\<close> and \<open>ry\<close> (a straight segment when \<open>rx = 0\<close>); the large-arc flag
  makes no difference, and the sweep flag chooses the half. With the y axis pointing
  down, a set sweep flag turns clockwise on the screen: downward through the right of
  the line, upward through the left.
\<close>

fun end_point :: "PathCmd \<Rightarrow> real \<times> real" where
  "end_point (MoveTo x y) = (x, y)"
| "end_point (ArcTo rx ry rot large sweep x y) = (x, y)"

fun half_arc :: "real \<times> real \<Rightarrow> PathCmd \<Rightarrow> bool" where
  "half_arc (x0, y0) (ArcTo rx ry rot large sweep x y) =
     (rot = 0 \<and> 0 \<le> rx \<and> 0 < ry \<and> x = x0 \<and> \<bar>y - y0\<bar> = 2 * ry)"
| "half_arc (x0, y0) (MoveTo x y) = False"

text \<open>Following a run of half arcs from a point: where it ends, if every arc is one.\<close>

fun arcs_from :: "real \<times> real \<Rightarrow> PathCmd list \<Rightarrow> (real \<times> real) option" where
  "arcs_from p [] = Some p"
| "arcs_from p (c # cs) = (if half_arc p c then arcs_from (end_point c) cs else None)"

text \<open>
  A closed outline: nothing at all, or a move to a point followed by half arcs that
  lead back to that point.
\<close>

fun closed_outline :: "PathData \<Rightarrow> bool" where
  "closed_outline [] = True"
| "closed_outline (MoveTo x y # cs) = (cs \<noteq> [] \<and> arcs_from (x, y) cs = Some (x, y))"
| "closed_outline (ArcTo rx ry rot large sweep x y # cs) = False"

datatype Side = LeftSide | RightSide

text \<open>The side of the vertical line through which an arc leaving height \<open>y0\<close> passes.\<close>

fun arc_side :: "real \<Rightarrow> PathCmd \<Rightarrow> Side option" where
  "arc_side y0 (ArcTo rx ry rot large sweep x y) =
     (if (y0 < y) = sweep then Some RightSide else Some LeftSide)"
| "arc_side y0 (MoveTo x y) = None"

text \<open>The outer arc and the terminator of a two-arc outline, and the side of each.\<close>

fun outer_side :: "PathData \<Rightarrow> Side option" where
  "outer_side [MoveTo x0 y0, a1, a2] = arc_side y0 a1"
| "outer_side d = None"

fun terminator_side :: "PathData \<Rightarrow> Side option" where
  "terminator_side [MoveTo x0 y0, a1, a2] = arc_side (snd (end_point a1)) a2"
| "terminator_side d = None"

fun terminator_rx :: "PathData \<Rightarrow> real option" where
  "terminator_rx [MoveTo x0 y0, a1, ArcTo rx ry rot large sweep x y] = Some rx"
| "terminator_rx d = None"

text \<open>
  The area between a half arc and its chord is half the area of the ellipse. Counted
  positive when the arc turns clockwise and negative otherwise, these areas add up,
  around a closed outline, to the signed area it encloses (the chords cancel).
\<close>

fun swept :: "PathCmd \<Rightarrow> real" where
  "swept (ArcTo rx ry rot large sweep x y) = (if sweep then 1 else - 1) * (pi * rx * ry / 2)"
| "swept (MoveTo x y) = 0"

definition enclosed_area :: "PathData \<Rightarrow> real" where
  "enclosed_area d = \<bar>sum_list (map swept d)\<bar>"

definition disc_area :: real where
  "disc_area = pi * 48 * 48"

section \<open>The phase calculator\<close>

lemma SYNODIC_MONTH_pos: "0 < SYNODIC_MONTH"
  by (simp add: SYNODIC_MONTH_def)

lemma phase_getMoonData:
  "phase (getMoonData h date lat lng) =
     (toJulian h date - 2460321.998) / SYNODIC_MONTH
       - real_of_int \<lfloor>(toJulian h date - 2460321.998) / SYNODIC_MONTH\<rfloor>"
  by (simp add: getMoonData_def Let_def case_prod_beta)

lemma age_getMoonData:
  "age (getMoonData h date lat lng) = phase (getMoonData h date lat lng) * SYNODIC_MONTH"
  by (simp add: getMoonData_def Let_def case_prod_beta)

lemma fraction_getMoonData:
  "fraction (getMoonData h date lat lng) = fraction_of h (phase (getMoonData h date lat lng))"
  by (simp add: getMoonData_def Let_def case_prod_beta)

lemma name_getMoonData:
  "name (getMoonData h date lat lng) = name_of (age (getMoonData h date lat lng))"
  by (simp add: getMoonData_def Let_def case_prod_beta)

lemma phase_bounds:
  "0 \<le> phase (getMoonData h date lat lng)" "phase (getMoonData h date lat lng) < 1"
  unfolding phase_getMoonData by linarith+

lemma age_bounds:
  "0 \<le> age (getMoonData h date lat lng)" "age (getMoonData h date lat lng) < 29.53058867"
proof -
  let ?m = "getMoonData h date lat lng"
  have a: "age ?m = phase ?m * 29.53058867"
    by (simp add: age_getMoonData SYNODIC_MONTH_def)
  show "0 \<le> age ?m" using phase_bounds(1) [of h date lat lng] unfolding a by simp
  show "age ?m < 29.53058867" using phase_bounds(2) [of h date lat lng] unfolding a by simp
qed

text \<open>
  C4. For every timestamp, before or after the reference new moon, and on every host,
  the phase of the snapshot lies in [0,1): it is the cycle count minus its floor. So
  the age, the phase times 29.53058867, lies in [0, 29.53058867).
\<close>

theorem C4_phase_and_age_in_range:
  "0 \<le> phase (getMoonData h date lat lng) \<and> phase (getMoonData h date lat lng) < 1
   \<and> 0 \<le> age (getMoonData h date lat lng)
   \<and> age (getMoonData h date lat lng) < 29.53058867"
  using phase_bounds [of h date lat lng] age_bounds [of h date lat lng] by simp

text \<open>
  C6. The name of a snapshot is \<open>name_of\<close> of its age, a total function given by the
  eight literal boundaries. For every age in [0, 29.53058867) exactly one band of the
  specification contains the age, and its name is the one \<open>name_of\<close> returns. An age of
  10 days is a waxing gibbous moon.
\<close>

theorem C6_bands_exhaustive_and_disjoint:
  "(0 \<le> a \<and> a < 29.53058867 \<longrightarrow>
      length (filter (in_band a) bands) = 1
      \<and> map band_name (filter (in_band a) bands) = [name_of a])
   \<and> name_of 10 = WAXING_GIBBOUS
   \<and> name (getMoonData h date lat lng) = name_of (age (getMoonData h date lat lng))"
proof -
  have "map band_name (filter (in_band a) bands) = [name_of a]" if "0 \<le> a" "a < 29.53058867"
    using that by (simp add: bands_def in_band_def band_name_def name_of_def)
  moreover have "length (filter (in_band a) bands) = 1" if "0 \<le> a" "a < 29.53058867"
    using that by (simp add: bands_def in_band_def)
  moreover have "name_of 10 = WAXING_GIBBOUS" by (simp add: name_of_def)
  ultimately show ?thesis using name_getMoonData by blast
qed

text \<open>The hypothesis of C6 holds at an age of 10 days, which the fourth band alone contains.\<close>

theorem C6_witness_ten_days:
  "(0::real) \<le> 10 \<and> (10::real) < 29.53058867
   \<and> length (filter (in_band 10) bands) = 1
   \<and> map band_name (filter (in_band 10) bands) = [WAXING_GIBBOUS]"
  using C6_bands_exhaustive_and_disjoint [of 10 UTC 0 0 0] by simp

text \<open>
  C9. The snapshot does not depend on the latitude or the longitude: for every
  timestamp and host, any two pairs of coordinates give the same snapshot, field by
  field. The function has no failure branch: every input has a snapshot.
\<close>

theorem C9_coordinates_ignored:
  "getMoonData h date lat1 lng1 = getMoonData h date lat2 lng2"
  by (simp add: getMoonData_def)

section \<open>Rounding to a double\<close>

lemma rne_close: "\<bar>real_of_int (rne x) - x\<bar> \<le> 1 / 2"
  unfolding rne_def Let_def by (simp; linarith)

lemma rne_of_int: "rne (real_of_int k) = k"
  by (simp add: rne_def)

text \<open>Evaluation, once the binary exponent of the argument is known.\<close>

lemma fl64_at_exponent:
  assumes "2 powr real_of_int e \<le> \<bar>x\<bar>" "\<bar>x\<bar> < 2 powr real_of_int (e + 1)" "- 1022 \<le> e"
  shows "fl64 x = real_of_int (rne (x / 2 powr real_of_int (e - 52))) * 2 powr real_of_int (e - 52)"
proof -
  have pos: "0 < \<bar>x\<bar>"
    using assms(1) powr_gt_zero [of 2 "real_of_int e"] by linarith
  have "\<lfloor>log 2 \<bar>x\<bar>\<rfloor> = e"
  proof (rule floor_unique)
    show "real_of_int e \<le> log 2 \<bar>x\<bar>"
      using assms(1) pos by (simp add: le_log_iff)
    show "log 2 \<bar>x\<bar> < real_of_int e + 1"
      using assms(2) pos by (simp add: log_less_iff add.commute)
  qed
  then show ?thesis using pos assms(3) by (simp add: fl64_def Let_def max_def)
qed

text \<open>The rounding error: half a unit in the last place.\<close>

lemma fl64_error: "\<bar>fl64 x - x\<bar> \<le> \<bar>x\<bar> / 2 ^ 53 + 2 powr (- 1075)"
proof (cases "x = 0")
  case True
  then show ?thesis by (simp add: fl64_def)
next
  case False
  define e0 where "e0 = \<lfloor>log 2 \<bar>x\<bar>\<rfloor>"
  define e where "e = max e0 (- 1022)"
  define g where "g = 2 powr real_of_int (e - 52)"
  have g0: "0 < g" by (simp add: g_def)
  have f: "fl64 x = real_of_int (rne (x / g)) * g"
    using False by (simp add: fl64_def Let_def e0_def e_def g_def)
  have "fl64 x - x = (real_of_int (rne (x / g)) - x / g) * g"
    using g0 by (simp add: f field_simps)
  then have "\<bar>fl64 x - x\<bar> = \<bar>real_of_int (rne (x / g)) - x / g\<bar> * g"
    using g0 by (simp add: abs_mult)
  also have "\<dots> \<le> 1 / 2 * g"
    using rne_close [of "x / g"] g0 by (intro mult_right_mono) simp_all
  finally have h: "\<bar>fl64 x - x\<bar> \<le> g / 2" by simp
  have "g / 2 \<le> \<bar>x\<bar> / 2 ^ 53 + 2 powr (- 1075)"
  proof (cases "- 1022 \<le> e0")
    case True
    then have "e = e0" by (simp add: e_def)
    have "2 powr real_of_int e0 \<le> \<bar>x\<bar>"
      using False unfolding e0_def by (simp add: powr_le_iff)
    moreover have "g = 2 powr real_of_int e0 / 2 ^ 52"
      unfolding g_def \<open>e = e0\<close> by (simp add: powr_diff)
    ultimately have "g / 2 \<le> \<bar>x\<bar> / 2 ^ 53" by (simp add: field_simps)
    moreover have "(0::real) \<le> 2 powr (- 1075)" by simp
    ultimately show ?thesis by linarith
  next
    case False
    then have "e = - 1022" by (simp add: e_def)
    then have "g = 2 powr (- 1074)" by (simp add: g_def)
    then have "g / 2 = 2 powr (- 1075)"
      by (simp add: powr_minus field_simps)
    then show ?thesis by simp
  qed
  with h show ?thesis by linarith
qed

lemma fl64_err: "\<bar>fl64 x - x\<bar> \<le> \<bar>x\<bar> / 2 ^ 53 + 1 / 2 ^ 100"
proof -
  have "(2::real) powr (- 1075) = 1 / 2 ^ 1075"
    by (simp add: powr_minus_divide)
  also have "\<dots> \<le> 1 / 2 ^ 100"
    by (intro divide_left_mono power_increasing) simp_all
  finally show ?thesis using fl64_error [of x] by linarith
qed

text \<open>A whole number below \<open>2 ^ 53\<close> in magnitude is a double, and so is its half.\<close>

lemma fl64_dyadic:
  assumes "\<bar>n\<bar> < 2 ^ 53" "j \<le> 1022"
  shows "fl64 (real_of_int n / 2 ^ j) = real_of_int n / 2 ^ j"
proof (cases "n = 0")
  case True then show ?thesis by (simp add: fl64_def)
next
  case False
  define en where "en = \<lfloor>log 2 \<bar>real_of_int n\<bar>\<rfloor>"
  define x where "x = real_of_int n / 2 ^ j"
  have n1: "1 \<le> \<bar>real_of_int n\<bar>" using False by (simp flip: of_int_abs)
  have en0: "0 \<le> en" unfolding en_def using n1 by simp
  have "\<bar>real_of_int n\<bar> < 2 ^ 53" using assms(1) by (simp flip: of_int_abs)
  then have "log 2 \<bar>real_of_int n\<bar> < 53"
    using n1 by (simp add: log_less_iff)
  then have en52: "en \<le> 52" unfolding en_def by linarith
  have x0: "x \<noteq> 0" using False by (simp add: x_def)
  have ax: "\<bar>x\<bar> = \<bar>real_of_int n\<bar> / 2 ^ j" by (simp add: x_def)
  have lx: "log 2 \<bar>x\<bar> = log 2 \<bar>real_of_int n\<bar> - real j"
    unfolding ax using n1 False by (simp add: log_divide log_nat_power)
  have ex: "\<lfloor>log 2 \<bar>x\<bar>\<rfloor> = en - int j"
    unfolding lx en_def by linarith
  have m: "max (en - int j) (- 1022) = en - int j" using en0 assms(2) by simp
  define k where "k = nat (52 - en)"
  have g: "2 powr real_of_int (en - int j - 52) = 1 / (2 ^ k * 2 ^ j)"
  proof -
    have "real_of_int (en - int j - 52) = - real (k + j)"
      using en52 by (simp add: k_def)
    then have "2 powr real_of_int (en - int j - 52) = 2 powr (- real (k + j))"
      by (simp only:)
    also have "\<dots> = 1 / 2 powr real (k + j)"
      by (rule powr_minus_divide)
    also have "2 powr real (k + j) = (2::real) ^ (k + j)"
      by (rule powr_realpow) simp
    finally show ?thesis by (simp add: power_add)
  qed
  have q: "x / (1 / (2 ^ k * 2 ^ j)) = real_of_int (n * 2 ^ k)"
    by (simp add: x_def)
  have "fl64 x = (let e = max \<lfloor>log 2 \<bar>x\<bar>\<rfloor> (- 1022); g = 2 powr real_of_int (e - 52)
      in real_of_int (rne (x / g)) * g)"
    using x0 by (simp only: fl64_def if_False)
  then have "fl64 x = real_of_int (rne (x / (1 / (2 ^ k * 2 ^ j)))) * (1 / (2 ^ k * 2 ^ j))"
    unfolding ex m Let_def g .
  also have "\<dots> = real_of_int (n * 2 ^ k) * (1 / (2 ^ k * 2 ^ j))"
    unfolding q rne_of_int ..
  also have "\<dots> = x" by (simp add: x_def)
  finally show ?thesis unfolding x_def .
qed

section \<open>The offsets of rise and set\<close>

text \<open>
  One rounded operation: when \<open>v\<close> is within \<open>d\<close> of the exact value \<open>w\<close>, the double
  nearest to \<open>v\<close> is within \<open>d\<close> plus the rounding error of \<open>w\<close>.
\<close>

lemma round_step:
  assumes "\<bar>v - w\<bar> \<le> d" "\<bar>w\<bar> \<le> B" "d \<le> 1"
  shows "\<bar>fl64 v - w\<bar> \<le> d + (B + 1) / 2 ^ 53 + 1 / 2 ^ 100"
proof -
  from assms have "\<bar>v\<bar> \<le> B + 1" by linarith
  then have "\<bar>v\<bar> / 2 ^ 53 \<le> (B + 1) / 2 ^ 53" by (simp add: divide_right_mono)
  with fl64_err [of v] have "\<bar>fl64 v - v\<bar> \<le> (B + 1) / 2 ^ 53 + 1 / 2 ^ 100" by linarith
  with assms(1) show ?thesis by linarith
qed

lemma abs_scale: "0 \<le> a \<Longrightarrow> \<bar>a * c - a * d\<bar> = a * \<bar>c - d\<bar>" for a :: real
  by (simp add: abs_mult flip: right_diff_distrib)

lemma abs_scale_right: "0 \<le> k \<Longrightarrow> \<bar>c * k - d * k\<bar> = \<bar>c - d\<bar> * k" for k :: real
  by (simp add: abs_mult flip: left_diff_distrib)

text \<open>The product \<open>age * 0.8\<close>, with the rounded literal and rounded itself.\<close>

lemma age_times_literal:
  assumes "0 \<le> a" "a < 29.53058867"
  shows "\<bar>fl64 (a * fl64 0.8) - a * 0.8\<bar> \<le> 1 / 2 ^ 47"
proof -
  have "\<bar>fl64 0.8 - 0.8\<bar> \<le> \<bar>0.8\<bar> / 2 ^ 53 + 1 / 2 ^ 100" by (rule fl64_err)
  then have c: "\<bar>fl64 0.8 - 0.8\<bar> \<le> 1 / 2 ^ 53" by simp
  have "\<bar>a * fl64 0.8 - a * 0.8\<bar> = a * \<bar>fl64 0.8 - 0.8\<bar>"
    using assms(1) by (rule abs_scale)
  also have "\<dots> \<le> 30 * (1 / 2 ^ 53)"
    using assms c by (intro mult_mono) simp_all
  finally have e1: "\<bar>a * fl64 0.8 - a * 0.8\<bar> \<le> 30 * (1 / 2 ^ 53)" .
  have b: "\<bar>a * 0.8\<bar> \<le> 24" using assms by simp
  have "\<bar>fl64 (a * fl64 0.8) - a * 0.8\<bar> \<le> 30 * (1 / 2 ^ 53) + (24 + 1) / 2 ^ 53 + 1 / 2 ^ 100"
    using e1 b by (rule round_step) simp
  then show ?thesis by simp
qed

text \<open>
  The offset in milliseconds, \<open>(k + age * 0.8) * 3600000\<close> for \<open>k\<close> = 6 and 18, as the
  program computes it: within \<open>2 powr - 23\<close> ms of the exact value.
\<close>

lemma offset_ms:
  assumes "0 \<le> a" "a < 29.53058867" "0 \<le> k" "k \<le> 18"
  shows "\<bar>fl64 (fl64 (k + fl64 (a * fl64 0.8)) * 3600000) - (k + a * 0.8) * 3600000\<bar>
           \<le> 1 / 2 ^ 23"
proof -
  define p where "p = fl64 (a * fl64 0.8)"
  define w where "w = k + a * 0.8"
  have w: "0 \<le> w" "w \<le> 42" using assms by (simp_all add: w_def)
  have "\<bar>(k + p) - w\<bar> \<le> 1 / 2 ^ 47"
    using age_times_literal [OF assms(1,2)] by (simp add: p_def w_def)
  moreover have "\<bar>w\<bar> \<le> 42" using w by simp
  ultimately have "\<bar>fl64 (k + p) - w\<bar> \<le> 1 / 2 ^ 47 + (42 + 1) / 2 ^ 53 + 1 / 2 ^ 100"
    by (rule round_step) simp
  then have o: "\<bar>fl64 (k + p) - w\<bar> \<le> 1 / 2 ^ 46" by simp
  have "\<bar>fl64 (k + p) * 3600000 - w * 3600000\<bar> = \<bar>fl64 (k + p) - w\<bar> * 3600000"
    by (rule abs_scale_right) simp
  also have "\<dots> \<le> 1 / 2 ^ 46 * 3600000"
    using o by (intro mult_right_mono) simp_all
  finally have d: "\<bar>fl64 (k + p) * 3600000 - w * 3600000\<bar> \<le> 1 / 2 ^ 46 * 3600000" .
  have "\<bar>w * 3600000\<bar> \<le> 151200000" using w by simp
  with d have "\<bar>fl64 (fl64 (k + p) * 3600000) - w * 3600000\<bar>
      \<le> 1 / 2 ^ 46 * 3600000 + (151200000 + 1) / 2 ^ 53 + 1 / 2 ^ 100"
    by (rule round_step) simp
  then show ?thesis unfolding p_def w_def by simp
qed

text \<open>
  The sum with the start of the day: the rounding error of the sum is at most
  \<open>\<bar>ds\<bar> / 2 ^ 53\<close>, up to \<open>2 powr - 22\<close> ms.
\<close>

lemma day_plus_offset:
  assumes "0 \<le> a" "a < 29.53058867" "0 \<le> k" "k \<le> 18"
  shows "\<bar>fl64 (real_of_int ds + fl64 (fl64 (k + fl64 (a * fl64 0.8)) * 3600000))
            - (real_of_int ds + (k + a * 0.8) * 3600000)\<bar>
           \<le> \<bar>real_of_int ds\<bar> / 2 ^ 53 + 1 / 2 ^ 22"
proof -
  define m where "m = fl64 (fl64 (k + fl64 (a * fl64 0.8)) * 3600000)"
  define w where "w = (k + a * 0.8) * 3600000"
  have w: "0 \<le> w" "w \<le> 151200000" using assms by (simp_all add: w_def)
  have "\<bar>(real_of_int ds + m) - (real_of_int ds + w)\<bar> \<le> 1 / 2 ^ 23"
    using offset_ms [OF assms] by (simp add: m_def w_def)
  moreover have "\<bar>real_of_int ds + w\<bar> \<le> \<bar>real_of_int ds\<bar> + 151200000" using w by linarith
  ultimately have "\<bar>fl64 (real_of_int ds + m) - (real_of_int ds + w)\<bar>
      \<le> 1 / 2 ^ 23 + (\<bar>real_of_int ds\<bar> + 151200000 + 1) / 2 ^ 53 + 1 / 2 ^ 100"
    by (rule round_step) simp
  also have "\<dots> \<le> \<bar>real_of_int ds\<bar> / 2 ^ 53 + 1 / 2 ^ 22"
    by (simp add: add_divide_distrib)
  finally show ?thesis unfolding m_def w_def .
qed

section \<open>Dates built from numbers\<close>

lemma ToInteger_close: "\<bar>real_of_int (ToInteger x) - x\<bar> < 1"
  unfolding ToInteger_def by (simp; linarith)

lemma ToInteger_abs_le: "\<bar>real_of_int (ToInteger x)\<bar> \<le> \<bar>x\<bar>"
  unfolding ToInteger_def by (simp; linarith)

lemma ToInteger_half:
  "\<bar>real_of_int (ToInteger (real_of_int k / 2)) - real_of_int k / 2\<bar> \<le> 1 / 2"
proof -
  obtain q where "k = 2 * q \<or> k = 2 * q + 1"
    by (metis oddE evenE)
  then show ?thesis
  proof
    assume "k = 2 * q"
    then have "real_of_int k / 2 = real_of_int q" by simp
    then show ?thesis by (simp add: ToInteger_def)
  next
    assume "k = 2 * q + 1"
    then have e: "real_of_int k / 2 = real_of_int q + 1 / 2" by simp
    have "\<lfloor>real_of_int q + 1 / 2 :: real\<rfloor> = q" by linarith
    moreover have "\<lceil>real_of_int q + 1 / 2 :: real\<rceil> = q + 1" by linarith
    ultimately show ?thesis unfolding e ToInteger_def by simp
  qed
qed

text \<open>
  Two numbers about \<open>k\<close> apart, truncated: the whole numbers are less than \<open>k + 2\<close>
  apart, and less than \<open>k + 1\<close> apart when both numbers lie on the same side of zero.
\<close>

lemma ToInteger_apart:
  assumes "\<bar>y - x - k\<bar> \<le> d"
  shows "\<bar>real_of_int (ToInteger y) - real_of_int (ToInteger x) - k\<bar> < 2 + d"
    and "0 \<le> x \<and> 0 \<le> y \<or> x < 0 \<and> y < 0 \<Longrightarrow>
           \<bar>real_of_int (ToInteger y) - real_of_int (ToInteger x) - k\<bar> < 1 + d"
proof -
  show "\<bar>real_of_int (ToInteger y) - real_of_int (ToInteger x) - k\<bar> < 2 + d"
    using ToInteger_close [of x] ToInteger_close [of y] assms by linarith
  assume "0 \<le> x \<and> 0 \<le> y \<or> x < 0 \<and> y < 0"
  then show "\<bar>real_of_int (ToInteger y) - real_of_int (ToInteger x) - k\<bar> < 1 + d"
    using assms unfolding ToInteger_def by (auto; linarith)
qed

lemma new_Date_Some:
  "\<bar>x\<bar> \<le> 8640000000000000 \<Longrightarrow> new_Date (Some x) = TimeValue (ToInteger x)"
  by (simp add: new_Date_def)

lemma new_Date_beyond: "8640000000000000 < \<bar>x\<bar> \<Longrightarrow> new_Date (Some x) = InvalidDate"
  by (simp add: new_Date_def)

lemma UTC_simps:
  "getTimezoneOffset UTC t = 0" "setHours0 UTC t = TimeValue (t - t mod 86400000)"
  by (simp_all add: UTC_def)

section \<open>Rise, set and transit\<close>

lemma moonTimes_getMoonData:
  "rise (getMoonData h date lat lng)
     = Some (fst (moonTimes (age (getMoonData h date lat lng)) (setHours0 h date)))"
  "set_t (getMoonData h date lat lng)
     = Some (fst (snd (moonTimes (age (getMoonData h date lat lng)) (setHours0 h date))))"
  "transit (getMoonData h date lat lng)
     = Some (snd (snd (moonTimes (age (getMoonData h date lat lng)) (setHours0 h date))))"
  by (simp_all add: getMoonData_def Let_def normalizeDate_def case_prod_beta)

lemma moonTimes_TimeValue:
  "moonTimes a (TimeValue ds) =
     (let x = fl64 (real_of_int ds + fl64 (fl64 (6 + fl64 (a * fl64 0.8)) * 3600000));
          y = fl64 (real_of_int ds + fl64 (fl64 (18 + fl64 (a * fl64 0.8)) * 3600000));
          rise = new_Date (Some x);
          set = new_Date (Some y)
      in (rise, set,
          new_Date (case (getTime rise, getTime set) of
                      (Some r, Some s) \<Rightarrow> Some (fl64 (fl64 (r + s) / 2))
                    | _ \<Rightarrow> None)))"
  by (simp add: moonTimes_def Let_def getTime_def)

text \<open>
  The analysis of \<open>moonTimes\<close> for a valid start of day \<open>ds\<close> within \<open>8.6e15\<close> ms of
  the epoch: the two rounded sums \<open>x\<close> and \<open>y\<close> are close to the exact sums, and all
  three results are valid.
\<close>

lemma moonTimes_sums:
  assumes a: "0 \<le> a" "a < 29.53058867" and ds: "\<bar>ds\<bar> \<le> 8600000000000000"
  shows "\<exists>x y m.
      moonTimes a (TimeValue ds)
        = (TimeValue (ToInteger x), TimeValue (ToInteger y), TimeValue (ToInteger m))
    \<and> \<bar>x - (real_of_int ds + (6 + a * 0.8) * 3600000)\<bar> \<le> \<bar>real_of_int ds\<bar> / 2 ^ 53 + 1 / 2 ^ 22
    \<and> \<bar>y - (real_of_int ds + (18 + a * 0.8) * 3600000)\<bar> \<le> \<bar>real_of_int ds\<bar> / 2 ^ 53 + 1 / 2 ^ 22
    \<and> m = fl64 (fl64 (real_of_int (ToInteger x) + real_of_int (ToInteger y)) / 2)
    \<and> \<bar>m - (real_of_int (ToInteger x) + real_of_int (ToInteger y)) / 2\<bar> < 2"
proof -
  define x where "x = fl64 (real_of_int ds + fl64 (fl64 (6 + fl64 (a * fl64 0.8)) * 3600000))"
  define y where "y = fl64 (real_of_int ds + fl64 (fl64 (18 + fl64 (a * fl64 0.8)) * 3600000))"
  define X where "X = real_of_int ds + (6 + a * 0.8) * 3600000"
  define Y where "Y = real_of_int ds + (18 + a * 0.8) * 3600000"
  define r where "r = real_of_int (ToInteger x)"
  define s where "s = real_of_int (ToInteger y)"
  define m1 where "m1 = fl64 (r + s)"
  define m where "m = fl64 (m1 / 2)"
  have D: "\<bar>real_of_int ds\<bar> \<le> 8600000000000000"
    using ds by (simp flip: of_int_abs)
  then have eps: "\<bar>real_of_int ds\<bar> / 2 ^ 53 + 1 / 2 ^ 22 \<le> 955 / 1000" by simp
  have ex: "\<bar>x - X\<bar> \<le> \<bar>real_of_int ds\<bar> / 2 ^ 53 + 1 / 2 ^ 22"
    unfolding x_def X_def using a by (intro day_plus_offset) simp_all
  have ey: "\<bar>y - Y\<bar> \<le> \<bar>real_of_int ds\<bar> / 2 ^ 53 + 1 / 2 ^ 22"
    unfolding y_def Y_def using a by (intro day_plus_offset) simp_all
  have "0 \<le> (6 + a * 0.8) * 3600000" "(6 + a * 0.8) * 3600000 \<le> 151200000"
    using a by simp_all
  then have bX: "\<bar>X\<bar> \<le> 8600000151200000" unfolding X_def using D by linarith
  have "0 \<le> (18 + a * 0.8) * 3600000" "(18 + a * 0.8) * 3600000 \<le> 151200000"
    using a by simp_all
  then have bY: "\<bar>Y\<bar> \<le> 8600000151200000" unfolding Y_def using D by linarith
  have bx: "\<bar>x\<bar> \<le> 8600000151200001" using ex eps bX by linarith
  have by': "\<bar>y\<bar> \<le> 8600000151200001" using ey eps bY by linarith
  have rise: "new_Date (Some x) = TimeValue (ToInteger x)"
    using bx by (intro new_Date_Some) simp
  have set: "new_Date (Some y) = TimeValue (ToInteger y)"
    using by' by (intro new_Date_Some) simp
  have br: "\<bar>r\<bar> \<le> 8600000151200001" unfolding r_def using ToInteger_abs_le [of x] bx by linarith
  have bs: "\<bar>s\<bar> \<le> 8600000151200001" unfolding s_def using ToInteger_abs_le [of y] by' by linarith
  have brs: "\<bar>r + s\<bar> \<le> 17200000302400002" using br bs by linarith
  have "\<bar>m1 - (r + s)\<bar> \<le> \<bar>r + s\<bar> / 2 ^ 53 + 1 / 2 ^ 100"
    unfolding m1_def by (rule fl64_err)
  also have "\<dots> \<le> 17200000302400002 / 2 ^ 53 + 1 / 2 ^ 100"
    using brs by (simp add: divide_right_mono)
  also have "\<dots> \<le> 192 / 100" by simp
  finally have e1: "\<bar>m1 - (r + s)\<bar> \<le> 192 / 100" .
  with brs have bm1: "\<bar>m1 / 2\<bar> \<le> 8600000151200002" by linarith
  have "\<bar>m - m1 / 2\<bar> \<le> \<bar>m1 / 2\<bar> / 2 ^ 53 + 1 / 2 ^ 100"
    unfolding m_def by (rule fl64_err)
  also have "\<dots> \<le> 8600000151200002 / 2 ^ 53 + 1 / 2 ^ 100"
    using bm1 by (simp add: divide_right_mono)
  also have "\<dots> \<le> 96 / 100" by simp
  finally have e2: "\<bar>m - m1 / 2\<bar> \<le> 96 / 100" .
  from e1 e2 have em: "\<bar>m - (r + s) / 2\<bar> < 2" by argo
  with brs have bm: "\<bar>m\<bar> \<le> 8640000000000000" by argo
  have transit: "new_Date (Some m) = TimeValue (ToInteger m)"
    using bm by (rule new_Date_Some)
  have "moonTimes a (TimeValue ds)
      = (TimeValue (ToInteger x), TimeValue (ToInteger y), TimeValue (ToInteger m))"
    unfolding moonTimes_TimeValue Let_def
    using rise set transit
    by (simp add: x_def y_def getTime_def m_def m1_def r_def s_def)
  with ex ey em show ?thesis
    unfolding X_def Y_def m_def m1_def r_def s_def by blast
qed

text \<open>
  What follows for the three time values \<open>r\<close>, \<open>s\<close> and \<open>t\<close>.
\<close>

lemma moonTimes_analysis:
  assumes a: "0 \<le> a" "a < 29.53058867" and ds: "\<bar>ds\<bar> \<le> 8600000000000000"
  shows "\<exists>r s t.
      moonTimes a (TimeValue ds) = (TimeValue r, TimeValue s, TimeValue t)
    \<and> \<bar>real_of_int r - (real_of_int ds + (6 + a * 0.8) * 3600000)\<bar>
          < 1 + \<bar>real_of_int ds\<bar> / 2 ^ 53 + 1 / 2 ^ 22
    \<and> \<bar>real_of_int s - (real_of_int ds + (18 + a * 0.8) * 3600000)\<bar>
          < 1 + \<bar>real_of_int ds\<bar> / 2 ^ 53 + 1 / 2 ^ 22
    \<and> \<bar>real_of_int t - real_of_int (r + s) / 2\<bar> < 3
    \<and> \<bar>s - r - 43200000\<bar> \<le> 3
    \<and> (\<bar>ds\<bar> \<le> 4000000000000000 \<longrightarrow> t = ToInteger (real_of_int (r + s) / 2))
    \<and> ((0 \<le> ds \<or> ds \<le> - 200000000) \<and> \<bar>ds\<bar> \<le> 4000000000000000 \<longrightarrow>
          \<bar>s - r - 43200000\<bar> \<le> 1)"
proof -
  define X where "X = real_of_int ds + (6 + a * 0.8) * 3600000"
  define Y where "Y = real_of_int ds + (18 + a * 0.8) * 3600000"
  define eps where "eps = \<bar>real_of_int ds\<bar> / 2 ^ 53 + 1 / 2 ^ 22"
  from moonTimes_sums [OF a ds] obtain x y m where
    mt: "moonTimes a (TimeValue ds)
           = (TimeValue (ToInteger x), TimeValue (ToInteger y), TimeValue (ToInteger m))"
    and ex: "\<bar>x - X\<bar> \<le> eps" and ey: "\<bar>y - Y\<bar> \<le> eps"
    and m: "m = fl64 (fl64 (real_of_int (ToInteger x) + real_of_int (ToInteger y)) / 2)"
    and em: "\<bar>m - (real_of_int (ToInteger x) + real_of_int (ToInteger y)) / 2\<bar> < 2"
    unfolding X_def Y_def eps_def by blast
  define r where "r = ToInteger x"
  define s where "s = ToInteger y"
  define t where "t = ToInteger m"
  have D: "\<bar>real_of_int ds\<bar> \<le> 8600000000000000"
    using ds by (simp flip: of_int_abs)
  then have eps: "0 \<le> eps" "eps \<le> 955 / 1000" by (simp_all add: eps_def)
  have YX: "Y - X = 43200000" by (simp add: X_def Y_def algebra_simps)
  have off: "21600000 \<le> X - real_of_int ds" "Y - real_of_int ds \<le> 151200000"
    using a by (simp_all add: X_def Y_def)
  have cr: "\<bar>real_of_int r - x\<bar> < 1" unfolding r_def by (rule ToInteger_close)
  have cs: "\<bar>real_of_int s - y\<bar> < 1" unfolding s_def by (rule ToInteger_close)
  have ct: "\<bar>real_of_int t - m\<bar> < 1" unfolding t_def by (rule ToInteger_close)
  have c1: "\<bar>real_of_int r - X\<bar> < 1 + eps" using cr ex by linarith
  have c2: "\<bar>real_of_int s - Y\<bar> < 1 + eps" using cs ey by linarith
  have "\<bar>real_of_int t - (real_of_int r + real_of_int s) / 2\<bar> < 3"
    using ct em unfolding r_def s_def by argo
  then have c3: "\<bar>real_of_int t - real_of_int (r + s) / 2\<bar> < 3" by simp
  have yx: "\<bar>y - x - 43200000\<bar> \<le> 2 * eps" using ex ey YX by linarith
  have "\<bar>real_of_int (ToInteger y) - real_of_int (ToInteger x) - 43200000\<bar> < 2 + 2 * eps"
    using yx by (rule ToInteger_apart(1))
  then have "\<bar>real_of_int (s - r - 43200000)\<bar> < 4"
    using eps unfolding r_def s_def by simp
  then have c4: "\<bar>s - r - 43200000\<bar> \<le> 3" by linarith
  have c5: "t = ToInteger (real_of_int (r + s) / 2)" if small: "\<bar>ds\<bar> \<le> 4000000000000000"
  proof -
    have D': "\<bar>real_of_int ds\<bar> \<le> 4000000000000000"
      using small by (simp flip: of_int_abs)
    have "\<bar>X\<bar> \<le> 4000000151200000" "\<bar>Y\<bar> \<le> 4000000151200000"
      using D' off YX by linarith+
    then have "\<bar>real_of_int r\<bar> \<le> 4000000151200002" "\<bar>real_of_int s\<bar> \<le> 4000000151200002"
      using c1 c2 eps by linarith+
    then have "\<bar>real_of_int (r + s)\<bar> < 9007199254740992" by simp
    then have "\<bar>r + s\<bar> < 9007199254740992" by linarith
    then have lt: "\<bar>r + s\<bar> < 2 ^ 53" by simp
    have "fl64 (real_of_int (r + s) / 2 ^ 0) = real_of_int (r + s) / 2 ^ 0"
      using lt by (rule fl64_dyadic) simp
    then have f1: "fl64 (real_of_int r + real_of_int s) = real_of_int (r + s)" by simp
    have "fl64 (real_of_int (r + s) / 2 ^ 1) = real_of_int (r + s) / 2 ^ 1"
      using lt by (rule fl64_dyadic) simp
    then have f2: "fl64 (real_of_int (r + s) / 2) = real_of_int (r + s) / 2" by simp
    have "m = real_of_int (r + s) / 2"
      unfolding m r_def [symmetric] s_def [symmetric] f1 f2 ..
    then show ?thesis unfolding t_def by (simp only:)
  qed
  have c6: "\<bar>s - r - 43200000\<bar> \<le> 1"
    if side: "0 \<le> ds \<or> ds \<le> - 200000000" and small: "\<bar>ds\<bar> \<le> 4000000000000000"
  proof -
    have D': "\<bar>real_of_int ds\<bar> \<le> 4000000000000000"
      using small by (simp flip: of_int_abs)
    then have eps': "eps \<le> 445 / 1000" by (simp add: eps_def)
    from side have "0 \<le> real_of_int ds \<or> real_of_int ds \<le> - 200000000" by linarith
    then have "0 \<le> x \<and> 0 \<le> y \<or> x < 0 \<and> y < 0"
      using off YX ex ey eps by linarith
    with yx have "\<bar>real_of_int (ToInteger y) - real_of_int (ToInteger x) - 43200000\<bar> < 1 + 2 * eps"
      by (rule ToInteger_apart(2))
    then have "\<bar>real_of_int (s - r - 43200000)\<bar> < 2"
      using eps' unfolding r_def s_def by simp
    then show ?thesis by linarith
  qed
  from mt c1 c2 c3 c4 c5 c6 show ?thesis
    unfolding r_def s_def t_def X_def Y_def eps_def
    by (intro exI [of _ "ToInteger x"] exI [of _ "ToInteger y"] exI [of _ "ToInteger m"]) simp
qed

text \<open>At the end of the range of a Date the rise is beyond it.\<close>

lemma rise_beyond_range:
  assumes "0 \<le> a" "a < 29.53058867"
  shows "fst (moonTimes a (TimeValue 8640000000000000)) = InvalidDate"
proof -
  define x where
    "x = fl64 (real_of_int 8640000000000000 + fl64 (fl64 (6 + fl64 (a * fl64 0.8)) * 3600000))"
  define w where "w = (6 + a * 0.8) * 3600000"
  have "\<bar>x - (real_of_int 8640000000000000 + w)\<bar>
      \<le> \<bar>real_of_int 8640000000000000\<bar> / 2 ^ 53 + 1 / 2 ^ 22"
    unfolding x_def w_def using assms by (intro day_plus_offset) simp_all
  then have "\<bar>x - (8640000000000000 + w)\<bar> \<le> 96 / 100"
    by simp
  moreover have "21600000 \<le> w" using assms by (simp add: w_def)
  ultimately have "8640000000000000 < \<bar>x\<bar>" by linarith
  then have "new_Date (Some x) = InvalidDate" by (rule new_Date_beyond)
  then show ?thesis by (simp add: moonTimes_TimeValue Let_def x_def)
qed

subsection \<open>Two dates on a UTC host\<close>

lemma scale_back: "S \<noteq> 0 \<Longrightarrow> (x / S - f) * S = x - f * (S::real)"
  by (simp add: field_simps)

lemma age_formula:
  "age (getMoonData h date lat lng) =
     (toJulian h date - 2460321.998)
       - real_of_int \<lfloor>(toJulian h date - 2460321.998) / SYNODIC_MONTH\<rfloor> * SYNODIC_MONTH"
proof -
  have "age (getMoonData h date lat lng) =
      ((toJulian h date - 2460321.998) / SYNODIC_MONTH
        - real_of_int \<lfloor>(toJulian h date - 2460321.998) / SYNODIC_MONTH\<rfloor>) * SYNODIC_MONTH"
    by (simp add: getMoonData_def Let_def case_prod_beta)
  also have "\<dots> = (toJulian h date - 2460321.998)
       - real_of_int \<lfloor>(toJulian h date - 2460321.998) / SYNODIC_MONTH\<rfloor> * SYNODIC_MONTH"
    using SYNODIC_MONTH_pos by (intro scale_back) simp
  finally show ?thesis .
qed

text \<open>Midnight UTC of 1 January 1970: the moon is 21.46582023 days old.\<close>

lemma age_UTC_epoch: "age (getMoonData UTC 0 0 0) = 21.46582023"
proof -
  have jd: "toJulian UTC 0 = 2440587.5" by (simp add: toJulian_def UTC_simps)
  have fl: "\<lfloor>(toJulian UTC 0 - 2460321.998) / SYNODIC_MONTH\<rfloor> = - 669"
    by (simp add: jd SYNODIC_MONTH_def)
  show ?thesis by (simp add: age_formula fl) (simp add: jd SYNODIC_MONTH_def)
qed

text \<open>
  The three times at that age, from midnight: each rounded operation in turn.
\<close>

lemma moonTimes_epoch:
  "moonTimes 21.46582023 (TimeValue 0) = (TimeValue 83421562, TimeValue 126621562, TimeValue 105021562)"
proof -
  have c: "fl64 (0.8) = (3602879701896397 / 4503599627370496)"
  proof -
    have "fl64 (0.8)
        = real_of_int (rne ((0.8) / 2 powr real_of_int ((- 1) - 52))) * 2 powr real_of_int ((- 1) - 52)"
      by (rule fl64_at_exponent) (simp_all add: powr_minus)
    also have "\<dots> = (3602879701896397 / 4503599627370496)"
      by (simp add: powr_minus rne_def Let_def)
    finally show ?thesis .
  qed
  have p: "fl64 (21.46582023 * (3602879701896397 / 4503599627370496)) = (4833672999451503 / 281474976710656)"
  proof -
    have "fl64 (21.46582023 * (3602879701896397 / 4503599627370496))
        = real_of_int (rne ((21.46582023 * (3602879701896397 / 4503599627370496)) / 2 powr real_of_int (4 - 52))) * 2 powr real_of_int (4 - 52)"
      by (rule fl64_at_exponent) (simp_all add: powr_minus)
    also have "\<dots> = (4833672999451503 / 281474976710656)"
      by (simp add: powr_minus rne_def Let_def)
    finally show ?thesis .
  qed
  have ro: "fl64 (6 + (4833672999451503 / 281474976710656)) = (6522522859715439 / 281474976710656)"
  proof -
    have "fl64 (6 + (4833672999451503 / 281474976710656))
        = real_of_int (rne ((6 + (4833672999451503 / 281474976710656)) / 2 powr real_of_int (4 - 52))) * 2 powr real_of_int (4 - 52)"
      by (rule fl64_at_exponent) (simp_all add: powr_minus)
    also have "\<dots> = (6522522859715439 / 281474976710656)"
      by (simp add: powr_minus rne_def Let_def)
    finally show ?thesis .
  qed
  have so: "fl64 (18 + (4833672999451503 / 281474976710656)) = (618763911265207 / 17592186044416)"
  proof -
    have "fl64 (18 + (4833672999451503 / 281474976710656))
        = real_of_int (rne ((18 + (4833672999451503 / 281474976710656)) / 2 powr real_of_int (5 - 52))) * 2 powr real_of_int (5 - 52)"
      by (rule fl64_at_exponent) (simp_all add: powr_minus)
    also have "\<dots> = (618763911265207 / 17592186044416)"
      by (simp add: powr_minus rne_def Let_def)
    finally show ?thesis .
  qed
  have mr: "fl64 ((6522522859715439 / 281474976710656) * 3600000) = (2799163138267467 / 33554432)"
  proof -
    have "fl64 ((6522522859715439 / 281474976710656) * 3600000)
        = real_of_int (rne (((6522522859715439 / 281474976710656) * 3600000) / 2 powr real_of_int (26 - 52))) * 2 powr real_of_int (26 - 52)"
      by (rule fl64_at_exponent) (simp_all add: powr_minus)
    also have "\<dots> = (2799163138267467 / 33554432)"
      by (simp add: powr_minus rne_def Let_def)
    finally show ?thesis .
  qed
  have ms: "fl64 ((618763911265207 / 17592186044416) * 3600000) = (8497429201334935 / 67108864)"
  proof -
    have "fl64 ((618763911265207 / 17592186044416) * 3600000)
        = real_of_int (rne (((618763911265207 / 17592186044416) * 3600000) / 2 powr real_of_int (26 - 52))) * 2 powr real_of_int (26 - 52)"
      by (rule fl64_at_exponent) (simp_all add: powr_minus)
    also have "\<dots> = (8497429201334935 / 67108864)"
      by (simp add: powr_minus rne_def Let_def)
    finally show ?thesis .
  qed
  have x: "fl64 (real_of_int 0 + (2799163138267467 / 33554432)) = (2799163138267467 / 33554432)"
  proof -
    have "fl64 (real_of_int 0 + (2799163138267467 / 33554432))
        = real_of_int (rne ((real_of_int 0 + (2799163138267467 / 33554432)) / 2 powr real_of_int (26 - 52))) * 2 powr real_of_int (26 - 52)"
      by (rule fl64_at_exponent) (simp_all add: powr_minus)
    also have "\<dots> = (2799163138267467 / 33554432)"
      by (simp add: powr_minus rne_def Let_def)
    finally show ?thesis .
  qed
  have y: "fl64 (real_of_int 0 + (8497429201334935 / 67108864)) = (8497429201334935 / 67108864)"
  proof -
    have "fl64 (real_of_int 0 + (8497429201334935 / 67108864))
        = real_of_int (rne ((real_of_int 0 + (8497429201334935 / 67108864)) / 2 powr real_of_int (26 - 52))) * 2 powr real_of_int (26 - 52)"
      by (rule fl64_at_exponent) (simp_all add: powr_minus)
    also have "\<dots> = (8497429201334935 / 67108864)"
      by (simp add: powr_minus rne_def Let_def)
    finally show ?thesis .
  qed
  have t1: "fl64 210043124 = 210043124"
    using fl64_dyadic [of 210043124 0] by simp
  have t2: "fl64 105021562 = 105021562"
    using fl64_dyadic [of 210043124 1] by simp
  show ?thesis
    unfolding moonTimes_TimeValue Let_def c p ro so mr ms x y
    by (simp add: new_Date_def ToInteger_def getTime_def t1 t2)
qed


text \<open>Noon UTC of 31 December 1969: the moon is 20.96582023 days old.\<close>

lemma age_UTC_before_epoch: "age (getMoonData UTC (- 43200000) 0 0) = 20.96582023"
proof -
  have jd: "toJulian UTC (- 43200000) = 2440587" by (simp add: toJulian_def UTC_simps)
  have fl: "\<lfloor>(toJulian UTC (- 43200000) - 2460321.998) / SYNODIC_MONTH\<rfloor> = - 669"
    by (simp add: jd SYNODIC_MONTH_def)
  show ?thesis by (simp add: age_formula fl) (simp add: jd SYNODIC_MONTH_def)
qed

text \<open>
  The three times at that age, from the midnight before: the rise falls before the Unix
  epoch and the set after it.
\<close>

lemma moonTimes_before_epoch:
  "moonTimes 20.96582023 (TimeValue (- 86400000)) = (TimeValue (- 4418437), TimeValue 38781562, TimeValue 17181562)"
proof -
  have c: "fl64 (0.8) = (3602879701896397 / 4503599627370496)"
  proof -
    have "fl64 (0.8)
        = real_of_int (rne ((0.8) / 2 powr real_of_int ((- 1) - 52))) * 2 powr real_of_int ((- 1) - 52)"
      by (rule fl64_at_exponent) (simp_all add: powr_minus)
    also have "\<dots> = (3602879701896397 / 4503599627370496)"
      by (simp add: powr_minus rne_def Let_def)
    finally show ?thesis .
  qed
  have p: "fl64 (20.96582023 * (3602879701896397 / 4503599627370496)) = (4721083008767241 / 281474976710656)"
  proof -
    have "fl64 (20.96582023 * (3602879701896397 / 4503599627370496))
        = real_of_int (rne ((20.96582023 * (3602879701896397 / 4503599627370496)) / 2 powr real_of_int (4 - 52))) * 2 powr real_of_int (4 - 52)"
      by (rule fl64_at_exponent) (simp_all add: powr_minus)
    also have "\<dots> = (4721083008767241 / 281474976710656)"
      by (simp add: powr_minus rne_def Let_def)
    finally show ?thesis .
  qed
  have ro: "fl64 (6 + (4721083008767241 / 281474976710656)) = (6409932869031177 / 281474976710656)"
  proof -
    have "fl64 (6 + (4721083008767241 / 281474976710656))
        = real_of_int (rne ((6 + (4721083008767241 / 281474976710656)) / 2 powr real_of_int (4 - 52))) * 2 powr real_of_int (4 - 52)"
      by (rule fl64_at_exponent) (simp_all add: powr_minus)
    also have "\<dots> = (6409932869031177 / 281474976710656)"
      by (simp add: powr_minus rne_def Let_def)
    finally show ?thesis .
  qed
  have so: "fl64 (18 + (4721083008767241 / 281474976710656)) = (1223454073694881 / 35184372088832)"
  proof -
    have "fl64 (18 + (4721083008767241 / 281474976710656))
        = real_of_int (rne ((18 + (4721083008767241 / 281474976710656)) / 2 powr real_of_int (5 - 52))) * 2 powr real_of_int (5 - 52)"
      by (rule fl64_at_exponent) (simp_all add: powr_minus)
    also have "\<dots> = (1223454073694881 / 35184372088832)"
      by (simp add: powr_minus rne_def Let_def)
    finally show ?thesis .
  qed
  have mr: "fl64 ((6409932869031177 / 281474976710656) * 3600000) = (2750844756187467 / 33554432)"
  proof -
    have "fl64 ((6409932869031177 / 281474976710656) * 3600000)
        = real_of_int (rne (((6409932869031177 / 281474976710656) * 3600000) / 2 powr real_of_int (26 - 52))) * 2 powr real_of_int (26 - 52)"
      by (rule fl64_at_exponent) (simp_all add: powr_minus)
    also have "\<dots> = (2750844756187467 / 33554432)"
      by (simp add: powr_minus rne_def Let_def)
    finally show ?thesis .
  qed
  have ms: "fl64 ((1223454073694881 / 35184372088832) * 3600000) = (4200396218587467 / 33554432)"
  proof -
    have "fl64 ((1223454073694881 / 35184372088832) * 3600000)
        = real_of_int (rne (((1223454073694881 / 35184372088832) * 3600000) / 2 powr real_of_int (26 - 52))) * 2 powr real_of_int (26 - 52)"
      by (rule fl64_at_exponent) (simp_all add: powr_minus)
    also have "\<dots> = (4200396218587467 / 33554432)"
      by (simp add: powr_minus rne_def Let_def)
    finally show ?thesis .
  qed
  have x: "fl64 (real_of_int (- 86400000) + (2750844756187467 / 33554432)) = (- (148258168612533 / 33554432))"
  proof -
    have "fl64 (real_of_int (- 86400000) + (2750844756187467 / 33554432))
        = real_of_int (rne ((real_of_int (- 86400000) + (2750844756187467 / 33554432)) / 2 powr real_of_int (22 - 52))) * 2 powr real_of_int (22 - 52)"
      by (rule fl64_at_exponent) (simp_all add: powr_minus)
    also have "\<dots> = (- (148258168612533 / 33554432))"
      by (simp add: powr_minus rne_def Let_def)
    finally show ?thesis .
  qed
  have y: "fl64 (real_of_int (- 86400000) + (4200396218587467 / 33554432)) = (1301293293787467 / 33554432)"
  proof -
    have "fl64 (real_of_int (- 86400000) + (4200396218587467 / 33554432))
        = real_of_int (rne ((real_of_int (- 86400000) + (4200396218587467 / 33554432)) / 2 powr real_of_int (25 - 52))) * 2 powr real_of_int (25 - 52)"
      by (rule fl64_at_exponent) (simp_all add: powr_minus)
    also have "\<dots> = (1301293293787467 / 33554432)"
      by (simp add: powr_minus rne_def Let_def)
    finally show ?thesis .
  qed
  have t1: "fl64 34363125 = 34363125"
    using fl64_dyadic [of 34363125 0] by simp
  have t2: "fl64 (34363125 / 2) = (34363125 / 2)"
    using fl64_dyadic [of 34363125 1] by simp
  show ?thesis
    unfolding moonTimes_TimeValue Let_def c p ro so mr ms x y
    by (simp add: new_Date_def ToInteger_def getTime_def t1 t2)
qed


lemma times_UTC_before_epoch:
  "rise (getMoonData UTC (- 43200000) 0 0) = Some (TimeValue (- 4418437))"
  "set_t (getMoonData UTC (- 43200000) 0 0) = Some (TimeValue 38781562)"
  "transit (getMoonData UTC (- 43200000) 0 0) = Some (TimeValue 17181562)"
proof -
  have ds: "setHours0 UTC (- 43200000) = TimeValue (- 86400000)"
    by (simp add: UTC_simps)
  show "rise (getMoonData UTC (- 43200000) 0 0) = Some (TimeValue (- 4418437))"
    "set_t (getMoonData UTC (- 43200000) 0 0) = Some (TimeValue 38781562)"
    "transit (getMoonData UTC (- 43200000) 0 0) = Some (TimeValue 17181562)"
    unfolding moonTimes_getMoonData age_UTC_before_epoch ds moonTimes_before_epoch
    by simp_all
qed

lemma rise_UTC_end_of_range: "rise (getMoonData UTC 8640000000000000 0 0) = Some InvalidDate"
proof -
  have "setHours0 UTC 8640000000000000 = TimeValue 8640000000000000"
    by (simp add: UTC_simps)
  then show ?thesis
    using rise_beyond_range [OF age_bounds [of UTC 8640000000000000 0 0]]
    by (simp add: moonTimes_getMoonData)
qed

subsection \<open>C7\<close>

text \<open>
  C7 as stated fails. At the last time value of a Date on a UTC host the rise is an
  Invalid Date: it is no time at all. At noon UTC of 31 December 1969 the rise and the
  set are an odd number of milliseconds apart, and the transit is not their midpoint:
  it is 21599999 ms after the rise and 21600000 ms before the set.
\<close>

theorem C7_counterexample_invalid_rise_and_odd_sum:
  "rise (getMoonData UTC 8640000000000000 0 0) = Some InvalidDate
   \<and> rise (getMoonData UTC (- 43200000) 0 0) = Some (TimeValue (- 4418437))
   \<and> set_t (getMoonData UTC (- 43200000) 0 0) = Some (TimeValue 38781562)
   \<and> transit (getMoonData UTC (- 43200000) 0 0) = Some (TimeValue 17181562)
   \<and> 2 * 17181562 \<noteq> - 4418437 + (38781562 :: int)
   \<and> 17181562 - (- 4418437) = (21599999 :: int)
   \<and> 38781562 - 17181562 = (21600000 :: int)"
  by (simp add: rise_UTC_end_of_range times_UTC_before_epoch)

text \<open>
  C7, amended. The rise, set and transit of every snapshot are those \<open>moonTimes\<close>
  gives for the age of the snapshot, which lies in [0, 29.53058867), and the start of
  the calendar day. For every such age and every start of day \<open>ds\<close> within 8.6e15 ms
  of the epoch the three are valid timestamps. The rise time is less than one
  millisecond plus the rounding error of the sum, at most \<open>\<bar>ds\<bar> / 2 ^ 53 + 1 / 2 ^ 22\<close>
  ms, from the day start plus (6 + age * 0.8) hours; so is the set time from the day
  start plus (18 + age * 0.8) hours. The transit time is less than 3 ms from the
  midpoint of rise and set, and when the day start is within 4e15 ms of the epoch it
  is the midpoint truncated toward zero to a whole millisecond, at most half a
  millisecond from the midpoint.
\<close>

theorem C7_rise_set_transit_to_the_millisecond:
  "rise (getMoonData h date lat lng)
     = Some (fst (moonTimes (age (getMoonData h date lat lng)) (setHours0 h date)))
   \<and> set_t (getMoonData h date lat lng)
     = Some (fst (snd (moonTimes (age (getMoonData h date lat lng)) (setHours0 h date))))
   \<and> transit (getMoonData h date lat lng)
     = Some (snd (snd (moonTimes (age (getMoonData h date lat lng)) (setHours0 h date))))
   \<and> 0 \<le> age (getMoonData h date lat lng) \<and> age (getMoonData h date lat lng) < 29.53058867
   \<and> (0 \<le> a \<and> a < 29.53058867 \<and> \<bar>ds\<bar> \<le> 8600000000000000 \<longrightarrow>
        (\<exists>r s t.
            moonTimes a (TimeValue ds) = (TimeValue r, TimeValue s, TimeValue t)
          \<and> \<bar>real_of_int r - (real_of_int ds + (6 + a * 0.8) * 3600000)\<bar>
                < 1 + \<bar>real_of_int ds\<bar> / 2 ^ 53 + 1 / 2 ^ 22
          \<and> \<bar>real_of_int s - (real_of_int ds + (18 + a * 0.8) * 3600000)\<bar>
                < 1 + \<bar>real_of_int ds\<bar> / 2 ^ 53 + 1 / 2 ^ 22
          \<and> \<bar>real_of_int t - real_of_int (r + s) / 2\<bar> < 3
          \<and> (\<bar>ds\<bar> \<le> 4000000000000000 \<longrightarrow>
                t = ToInteger (real_of_int (r + s) / 2)
                \<and> \<bar>real_of_int t - real_of_int (r + s) / 2\<bar> \<le> 1 / 2)))"
proof -
  have "\<exists>r s t.
            moonTimes a (TimeValue ds) = (TimeValue r, TimeValue s, TimeValue t)
          \<and> \<bar>real_of_int r - (real_of_int ds + (6 + a * 0.8) * 3600000)\<bar>
                < 1 + \<bar>real_of_int ds\<bar> / 2 ^ 53 + 1 / 2 ^ 22
          \<and> \<bar>real_of_int s - (real_of_int ds + (18 + a * 0.8) * 3600000)\<bar>
                < 1 + \<bar>real_of_int ds\<bar> / 2 ^ 53 + 1 / 2 ^ 22
          \<and> \<bar>real_of_int t - real_of_int (r + s) / 2\<bar> < 3
          \<and> (\<bar>ds\<bar> \<le> 4000000000000000 \<longrightarrow>
                t = ToInteger (real_of_int (r + s) / 2)
                \<and> \<bar>real_of_int t - real_of_int (r + s) / 2\<bar> \<le> 1 / 2)"
    if h: "0 \<le> a" "a < 29.53058867" "\<bar>ds\<bar> \<le> 8600000000000000"
  proof -
    from moonTimes_analysis [OF h] obtain r s t where
      1: "moonTimes a (TimeValue ds) = (TimeValue r, TimeValue s, TimeValue t)"
      and 2: "\<bar>real_of_int r - (real_of_int ds + (6 + a * 0.8) * 3600000)\<bar>
                < 1 + \<bar>real_of_int ds\<bar> / 2 ^ 53 + 1 / 2 ^ 22"
      and 3: "\<bar>real_of_int s - (real_of_int ds + (18 + a * 0.8) * 3600000)\<bar>
                < 1 + \<bar>real_of_int ds\<bar> / 2 ^ 53 + 1 / 2 ^ 22"
      and 4: "\<bar>real_of_int t - real_of_int (r + s) / 2\<bar> < 3"
      and 5: "\<bar>ds\<bar> \<le> 4000000000000000 \<longrightarrow> t = ToInteger (real_of_int (r + s) / 2)"
      by blast
    have "\<bar>real_of_int t - real_of_int (r + s) / 2\<bar> \<le> 1 / 2"
      if "t = ToInteger (real_of_int (r + s) / 2)"
      unfolding that by (rule ToInteger_half)
    with 1 2 3 4 5 show ?thesis by blast
  qed
  then show ?thesis
    using moonTimes_getMoonData [of h date lat lng] age_bounds [of h date lat lng]
    by blast
qed

text \<open>
  The hypotheses of C7 hold for the age of 21.46582023 days and the day start 0, those
  of midnight UTC of 1 January 1970.
\<close>

theorem C7_witness_epoch:
  "(0::real) \<le> 21.46582023 \<and> (21.46582023::real) < 29.53058867
   \<and> \<bar>0::int\<bar> \<le> 8600000000000000 \<and> \<bar>0::int\<bar> \<le> 4000000000000000
   \<and> (\<exists>r s t.
        moonTimes 21.46582023 (TimeValue 0) = (TimeValue r, TimeValue s, TimeValue t)
      \<and> \<bar>real_of_int r - (real_of_int 0 + (6 + 21.46582023 * 0.8) * 3600000)\<bar>
            < 1 + \<bar>real_of_int 0\<bar> / 2 ^ 53 + 1 / 2 ^ 22
      \<and> \<bar>real_of_int s - (real_of_int 0 + (18 + 21.46582023 * 0.8) * 3600000)\<bar>
            < 1 + \<bar>real_of_int 0\<bar> / 2 ^ 53 + 1 / 2 ^ 22
      \<and> t = ToInteger (real_of_int (r + s) / 2))"
proof -
  have h: "(0::real) \<le> 21.46582023 \<and> (21.46582023::real) < 29.53058867
      \<and> \<bar>0::int\<bar> \<le> 8600000000000000"
    by simp
  have h': "\<bar>0::int\<bar> \<le> 4000000000000000" by simp
  from C7_rise_set_transit_to_the_millisecond [of UTC 0 0 0 "21.46582023" 0] h h'
  have "\<exists>r s t.
        moonTimes 21.46582023 (TimeValue 0) = (TimeValue r, TimeValue s, TimeValue t)
      \<and> \<bar>real_of_int r - (real_of_int 0 + (6 + 21.46582023 * 0.8) * 3600000)\<bar>
            < 1 + \<bar>real_of_int 0\<bar> / 2 ^ 53 + 1 / 2 ^ 22
      \<and> \<bar>real_of_int s - (real_of_int 0 + (18 + 21.46582023 * 0.8) * 3600000)\<bar>
            < 1 + \<bar>real_of_int 0\<bar> / 2 ^ 53 + 1 / 2 ^ 22
      \<and> t = ToInteger (real_of_int (r + s) / 2)"
    by blast
  with h h' show ?thesis by blast
qed

subsection \<open>C10\<close>

text \<open>
  C10 as stated fails. At noon UTC of 31 December 1969 the rise falls before the Unix
  epoch and the set after it. Truncation toward zero rounds the first up and the second
  down: the set time is 43199999 ms after the rise time, one millisecond short of 12
  hours.
\<close>

theorem C10_counterexample_across_epoch:
  "rise (getMoonData UTC (- 43200000) 0 0) = Some (TimeValue (- 4418437))
   \<and> set_t (getMoonData UTC (- 43200000) 0 0) = Some (TimeValue 38781562)
   \<and> 38781562 - (- 4418437) \<noteq> (12 * 3600000 :: int)"
  by (simp add: times_UTC_before_epoch)

text \<open>
  C10, amended. The rise, set and transit of a snapshot are never null, and
  \<open>normalizeDate\<close> returns its first argument unchanged. The three are those
  \<open>moonTimes\<close> gives for the age of the snapshot, which lies in [0, 29.53058867), and
  the start of the calendar day. For every such age and every start of day \<open>ds\<close> within
  8.6e15 ms of the epoch they are valid timestamps, and the set time is 12 hours after
  the rise time to within 3 ms; to within 1 ms when the day start is within 4e15 ms
  of the epoch and is not before the epoch, or is at least 200000000 ms before it.
\<close>

theorem C10_never_null_set_after_rise:
  "rise (getMoonData h date lat lng) \<noteq> None
   \<and> set_t (getMoonData h date lat lng) \<noteq> None
   \<and> transit (getMoonData h date lat lng) \<noteq> None
   \<and> normalizeDate d base = d
   \<and> rise (getMoonData h date lat lng)
     = Some (fst (moonTimes (age (getMoonData h date lat lng)) (setHours0 h date)))
   \<and> set_t (getMoonData h date lat lng)
     = Some (fst (snd (moonTimes (age (getMoonData h date lat lng)) (setHours0 h date))))
   \<and> transit (getMoonData h date lat lng)
     = Some (snd (snd (moonTimes (age (getMoonData h date lat lng)) (setHours0 h date))))
   \<and> 0 \<le> age (getMoonData h date lat lng) \<and> age (getMoonData h date lat lng) < 29.53058867
   \<and> (0 \<le> a \<and> a < 29.53058867 \<and> \<bar>ds\<bar> \<le> 8600000000000000 \<longrightarrow>
        (\<exists>r s t.
            moonTimes a (TimeValue ds) = (TimeValue r, TimeValue s, TimeValue t)
          \<and> \<bar>s - r - 43200000\<bar> \<le> 3
          \<and> ((0 \<le> ds \<or> ds \<le> - 200000000) \<and> \<bar>ds\<bar> \<le> 4000000000000000 \<longrightarrow>
                \<bar>s - r - 43200000\<bar> \<le> 1)))"
proof -
  have "\<exists>r s t.
            moonTimes a (TimeValue ds) = (TimeValue r, TimeValue s, TimeValue t)
          \<and> \<bar>s - r - 43200000\<bar> \<le> 3
          \<and> ((0 \<le> ds \<or> ds \<le> - 200000000) \<and> \<bar>ds\<bar> \<le> 4000000000000000 \<longrightarrow>
                \<bar>s - r - 43200000\<bar> \<le> 1)"
    if h: "0 \<le> a" "a < 29.53058867" "\<bar>ds\<bar> \<le> 8600000000000000"
    using moonTimes_analysis [OF h] by blast
  moreover have "normalizeDate d base = d" by (simp add: normalizeDate_def)
  moreover have "rise (getMoonData h date lat lng) \<noteq> None"
    "set_t (getMoonData h date lat lng) \<noteq> None"
    "transit (getMoonData h date lat lng) \<noteq> None"
    by (simp_all only: moonTimes_getMoonData option.distinct not_False_eq_True)
  ultimately show ?thesis
    using moonTimes_getMoonData [of h date lat lng] age_bounds [of h date lat lng]
    by blast
qed

text \<open>
  The hypotheses of C10 hold for the age of 21.46582023 days and the day start 0, those
  of midnight UTC of 1 January 1970: the set time is exactly 12 hours after the rise
  time there.
\<close>

theorem C10_witness_epoch:
  "(0::real) \<le> 21.46582023 \<and> (21.46582023::real) < 29.53058867
   \<and> \<bar>0::int\<bar> \<le> 8600000000000000 \<and> \<bar>0::int\<bar> \<le> 4000000000000000 \<and> (0::int) \<le> 0
   \<and> moonTimes 21.46582023 (TimeValue 0)
       = (TimeValue 83421562, TimeValue 126621562, TimeValue 105021562)
   \<and> \<bar>126621562 - 83421562 - 43200000 :: int\<bar> \<le> 1
   \<and> normalizeDate (TimeValue 83421562) (TimeValue 0) = TimeValue 83421562"
proof -
  from C10_never_null_set_after_rise
         [of UTC 0 0 0 "TimeValue 83421562" "TimeValue 0" "21.46582023" 0]
  obtain r s t where
    "moonTimes 21.46582023 (TimeValue 0) = (TimeValue r, TimeValue s, TimeValue t)"
    "\<bar>s - r - 43200000\<bar> \<le> 1"
    "normalizeDate (TimeValue 83421562) (TimeValue 0) = TimeValue 83421562"
    by auto
  then show ?thesis unfolding moonTimes_epoch by simp
qed

section \<open>The silhouette\<close>

lemma MoonVisual_outside_bands:
  "0.01 \<le> p \<and> p \<le> 0.49 \<or> 0.51 \<le> p \<and> p \<le> 0.99 \<Longrightarrow> MoonVisual p = MoonVisual_regime p"
  by (auto simp add: MoonVisual_def Let_def)

lemma MoonVisual_full_band: "\<bar>p - 0.5\<bar> < 0.01 \<Longrightarrow> MoonVisual p = full_circle"
  by (simp add: MoonVisual_def Let_def)

lemma MoonVisual_empty: "p < 0.01 \<or> 0.99 < p \<Longrightarrow> MoonVisual p = []"
  by (auto simp add: MoonVisual_def Let_def)

lemma MoonVisual_closed: "closed_outline (MoonVisual p)"
  by (simp add: MoonVisual_def MoonVisual_regime_def full_circle_def Let_def)

lemma abs_terminatorWidth: "\<bar>terminatorWidth p\<bar> = 48 * \<bar>cos (2 * pi * p)\<bar>"
  by (simp add: terminatorWidth_def abs_mult mult.commute mult.left_commute)

text \<open>
  C3. For every phase in [0, 0.01) or (0.99, 1) the outline is empty: nothing is
  illuminated. For every phase in (0.49, 0.51) it is the boundary of the full disc:
  from the top of the disc, the point (50, 2), a half circle of radius 48 down the right
  side to the bottom, the point (50, 98), and a half circle of radius 48 up the left
  side back to the top. This outline is closed and encloses the area of the disc,
  \<open>pi * 48 * 48\<close>. Both outlines come from the two overriding assignments: the path
  of the general regimes is neither of them.
\<close>

theorem C3_singular_bands:
  "(0 \<le> p \<and> p < 0.01 \<or> 0.99 < p \<and> p < 1 \<longrightarrow>
      MoonVisual p = [] \<and> enclosed_area (MoonVisual p) = 0 \<and> MoonVisual_regime p \<noteq> [])
   \<and> (0.49 < p \<and> p < 0.51 \<longrightarrow>
      MoonVisual p = full_circle
      \<and> MoonVisual p
          = [MoveTo 50 2, ArcTo 48 48 0 True True 50 98, ArcTo 48 48 0 True True 50 2]
      \<and> closed_outline (MoonVisual p)
      \<and> outer_side (MoonVisual p) = Some RightSide
      \<and> terminator_side (MoonVisual p) = Some LeftSide
      \<and> terminator_rx (MoonVisual p) = Some 48
      \<and> enclosed_area (MoonVisual p) = pi * 48 * 48
      \<and> enclosed_area (MoonVisual p) = disc_area
      \<and> MoonVisual_regime p \<noteq> full_circle)"
  by (auto simp add: MoonVisual_def MoonVisual_regime_def full_circle_def Let_def
        enclosed_area_def disc_area_def)

text \<open>The hypotheses of C3 hold at the phases 0, 0.995 and 0.5.\<close>

theorem C3_witness_new_and_full:
  "MoonVisual 0 = [] \<and> MoonVisual 0.995 = [] \<and> MoonVisual 0.5 = full_circle
   \<and> MoonVisual 0.5
       = [MoveTo 50 2, ArcTo 48 48 0 True True 50 98, ArcTo 48 48 0 True True 50 2]
   \<and> closed_outline (MoonVisual 0.5)
   \<and> enclosed_area (MoonVisual 0.5) = pi * 48 * 48
   \<and> MoonVisual_regime 0.5 \<noteq> full_circle"
proof -
  have h: "(0::real) \<le> 0 \<and> (0::real) < 0.01" "(0.99::real) < 0.995 \<and> (0.995::real) < 1"
    "(0.49::real) < 0.5 \<and> (0.5::real) < 0.51"
    by simp_all
  show ?thesis
    using C3_singular_bands [of 0] C3_singular_bands [of "0.995"] C3_singular_bands [of "0.5"] h
    by blast
qed

subsection \<open>C1\<close>

text \<open>
  C1 as stated fails: the phase is classified as it is given. The phase 1.3 gives the
  empty outline, and its normalised value 0.3 gives a waxing gibbous outline.
\<close>

theorem C1_counterexample_no_normalisation:
  "MoonVisual (0.3 + 1) \<noteq> MoonVisual (normalize_value (0.3 + 1))
   \<and> normalize_value (0.3 + 1) = 0.3"
  by (simp add: MoonVisual_def MoonVisual_regime_def full_circle_def Let_def
        normalize_value_def)

text \<open>
  C1, amended. The silhouette generator does not normalise the phase. Every phase below
  0.01 or above 0.99, so every phase outside [0,1), gives the empty outline; a phase in
  [0,1) is its own normalised value and is classified as it stands. In every case the
  outline is closed (possibly empty or the full disc).
\<close>

theorem C1_closed_outline_without_normalisation:
  "closed_outline (MoonVisual p)
   \<and> (p < 0 \<or> 1 \<le> p \<longrightarrow> MoonVisual p = [])
   \<and> (0 \<le> p \<and> p < 1 \<longrightarrow> MoonVisual (normalize_value p) = MoonVisual p)"
proof -
  have "MoonVisual p = []" if "p < 0 \<or> 1 \<le> p"
    using that by (intro MoonVisual_empty) auto
  moreover have "MoonVisual (normalize_value p) = MoonVisual p" if "0 \<le> p" "p < 1"
  proof -
    from that have "\<lfloor>p\<rfloor> = 0" by linarith
    then have "normalize_value p = p" using that by (simp add: normalize_value_def Let_def)
    then show ?thesis by simp
  qed
  ultimately show ?thesis using MoonVisual_closed by blast
qed

text \<open>The hypotheses of C1 hold at the phases 1.3 and 0.3.\<close>

theorem C1_witness_outside_and_inside:
  "(1::real) \<le> 1.3 \<and> MoonVisual 1.3 = [] \<and> closed_outline (MoonVisual 1.3)
   \<and> (0::real) \<le> 0.3 \<and> (0.3::real) < 1
   \<and> MoonVisual (normalize_value 0.3) = MoonVisual 0.3 \<and> closed_outline (MoonVisual 0.3)"
  using C1_closed_outline_without_normalisation [of "1.3"]
    C1_closed_outline_without_normalisation [of "0.3"]
  by simp

section \<open>The enclosed area\<close>

lemma disc_area_pos: "0 < disc_area"
  by (simp add: disc_area_def)

lemma full_circle_area: "enclosed_area full_circle = disc_area"
  by (simp add: enclosed_area_def full_circle_def disc_area_def)

text \<open>
  The area of the path of the general regimes: half the disc less the half ellipse of
  the terminator in the first and third quarters, half the disc plus it in the second
  and fourth.
\<close>

lemma regime_area:
  "enclosed_area (MoonVisual_regime p) =
     (if p < 0.25 \<or> (0.5 \<le> p \<and> p < 0.75)
      then disc_area / 2 * (1 - \<bar>cos (2 * pi * p)\<bar>)
      else disc_area / 2 * (1 + \<bar>cos (2 * pi * p)\<bar>))"
proof -
  let ?c = "\<bar>cos (2 * pi * p)\<bar>"
  have c: "0 \<le> ?c" "?c \<le> 1" by simp_all
  have m: "\<bar>pi * 48 * 48 / 2 - pi * (48 * ?c) * 48 / 2\<bar> = pi * 48 * 48 / 2 * (1 - ?c)"
  proof -
    have "pi * 48 * 48 / 2 - pi * (48 * ?c) * 48 / 2 = pi * 48 * 48 / 2 * (1 - ?c)"
      by (simp add: algebra_simps)
    moreover have "0 \<le> pi * 48 * 48 / 2 * (1 - ?c)" using c by simp
    ultimately show ?thesis by simp
  qed
  have m': "\<bar>pi * (48 * ?c) * 48 / 2 - pi * 48 * 48 / 2\<bar> = pi * 48 * 48 / 2 * (1 - ?c)"
    using m by (simp add: abs_minus_commute)
  have pl: "\<bar>pi * 48 * 48 / 2 + pi * (48 * ?c) * 48 / 2\<bar> = pi * 48 * 48 / 2 * (1 + ?c)"
  proof -
    have "pi * 48 * 48 / 2 + pi * (48 * ?c) * 48 / 2 = pi * 48 * 48 / 2 * (1 + ?c)"
      by (simp add: algebra_simps)
    moreover have "0 \<le> pi * 48 * 48 / 2 * (1 + ?c)" using c by simp
    ultimately show ?thesis by simp
  qed
  have pl': "\<bar>- (pi * 48 * 48 / 2) - pi * (48 * ?c) * 48 / 2\<bar> = pi * 48 * 48 / 2 * (1 + ?c)"
  proof -
    have "- (pi * 48 * 48 / 2) - pi * (48 * ?c) * 48 / 2
        = - (pi * 48 * 48 / 2 + pi * (48 * ?c) * 48 / 2)"
      by simp
    then show ?thesis using pl by (simp only: abs_minus)
  qed
  show ?thesis
    unfolding enclosed_area_def MoonVisual_regime_def disc_area_def
    using m m' pl pl' by (simp add: abs_terminatorWidth)
qed

subsection \<open>C2\<close>

lemma quarter_flags:
  fixes p :: real
  assumes "0 \<le> p" "p < 1"
  shows "(\<lfloor>4 * p\<rfloor> < 2) = (p < 0.5)"
    and "(\<lfloor>4 * p\<rfloor> = 1 \<or> \<lfloor>4 * p\<rfloor> = 2) = (0.25 \<le> p \<and> p < 0.75)"
proof -
  show "(\<lfloor>4 * p\<rfloor> < 2) = (p < 0.5)"
    by (simp add: floor_less_iff) linarith
  have i: "(n = 1 \<or> n = 2) = (1 \<le> n \<and> n < 3)" for n :: int by auto
  have "(\<lfloor>4 * p\<rfloor> = 1 \<or> \<lfloor>4 * p\<rfloor> = 2) = (1 \<le> \<lfloor>4 * p\<rfloor> \<and> \<lfloor>4 * p\<rfloor> < 3)"
    by (rule i)
  also have "\<dots> = (0.25 \<le> p \<and> p < 0.75)"
    by (simp add: le_floor_iff floor_less_iff) linarith
  finally show "(\<lfloor>4 * p\<rfloor> = 1 \<or> \<lfloor>4 * p\<rfloor> = 2) = (0.25 \<le> p \<and> p < 0.75)" .
qed

lemma regime_by_quarter:
  assumes "0 \<le> p" "p < 1"
  shows "MoonVisual_regime p =
     [MoveTo 50 2, ArcTo 48 48 0 False (\<lfloor>4 * p\<rfloor> < 2) 50 98,
      ArcTo (48 * \<bar>cos (2 * pi * p)\<bar>) 48 0 False (\<lfloor>4 * p\<rfloor> = 1 \<or> \<lfloor>4 * p\<rfloor> = 2) 50 2]"
  unfolding quarter_flags [OF assms] MoonVisual_regime_def abs_terminatorWidth by auto

lemma cos_eighth: "\<bar>cos (2 * pi * 0.125)\<bar> = sqrt 2 / 2"
proof -
  have "2 * pi * 0.125 = pi / 4" by simp
  then show ?thesis by (simp only: cos_45) simp
qed

lemma cos_three_eighths: "\<bar>cos (2 * pi * 0.375)\<bar> = sqrt 2 / 2"
proof -
  have "2 * pi * 0.375 = pi - pi / 4" by simp
  then have "cos (2 * pi * 0.375) = - cos (pi / 4)" by (simp only: cos_pi_minus)
  then show ?thesis by (simp only: cos_45) simp
qed

lemma sqrt2_half: "0 < sqrt 2 / 2" "sqrt 2 / 2 < 1"
proof -
  show "0 < sqrt 2 / 2" by simp
  have "sqrt 2 < sqrt 4" by (simp only: real_sqrt_less_iff)
  then show "sqrt 2 / 2 < 1" by simp
qed

lemma area_eighth: "enclosed_area (MoonVisual 0.125) = disc_area / 2 * (1 - sqrt 2 / 2)"
proof -
  have "MoonVisual 0.125 = MoonVisual_regime 0.125" by (rule MoonVisual_outside_bands) simp
  then show ?thesis by (simp only: regime_area cos_eighth) simp
qed

lemma area_three_eighths: "enclosed_area (MoonVisual 0.375) = disc_area / 2 * (1 + sqrt 2 / 2)"
proof -
  have "MoonVisual 0.375 = MoonVisual_regime 0.375" by (rule MoonVisual_outside_bands) simp
  then show ?thesis by (simp only: regime_area cos_three_eighths) simp
qed

lemma sides_eighth:
  "outer_side (MoonVisual 0.125) = Some RightSide"
  "terminator_side (MoonVisual 0.125) = Some RightSide"
  by (simp_all add: MoonVisual_def MoonVisual_regime_def Let_def)

lemma sides_three_eighths:
  "outer_side (MoonVisual 0.375) = Some RightSide"
  "terminator_side (MoonVisual 0.375) = Some LeftSide"
  by (simp_all add: MoonVisual_def MoonVisual_regime_def Let_def)

text \<open>
  C2. For every phase in [0,1) outside the singular bands, that is in [0.01, 0.49] or
  [0.51, 0.99], the outline is the path of one of four regimes, chosen by the quarter
  \<open>\<lfloor>4 * phase\<rfloor>\<close> alone: the sweep flag of the outer arc is set in quarters 0 and 1,
  that of the terminator in quarters 1 and 2. The horizontal semi-axis of the terminator
  is 48 * |cos (2 pi * phase)|, never negative. At phase 0.125 the outer arc and the
  terminator both pass on the right, and the area is less than half the disc; at phase
  0.375 the outer arc passes on the right and the terminator on the left, and the area
  is more than half the disc and less than the disc.
\<close>

theorem C2_regimes_by_quarter:
  "(0.01 \<le> p \<and> p \<le> 0.49 \<or> 0.51 \<le> p \<and> p \<le> 0.99 \<longrightarrow>
      MoonVisual p =
        [MoveTo 50 2, ArcTo 48 48 0 False (\<lfloor>4 * p\<rfloor> < 2) 50 98,
         ArcTo (48 * \<bar>cos (2 * pi * p)\<bar>) 48 0 False (\<lfloor>4 * p\<rfloor> = 1 \<or> \<lfloor>4 * p\<rfloor> = 2) 50 2]
      \<and> terminator_rx (MoonVisual p) = Some (48 * \<bar>cos (2 * pi * p)\<bar>)
      \<and> 0 \<le> 48 * \<bar>cos (2 * pi * p)\<bar>)
   \<and> outer_side (MoonVisual 0.125) = Some RightSide
   \<and> terminator_side (MoonVisual 0.125) = Some RightSide
   \<and> enclosed_area (MoonVisual 0.125) < disc_area / 2
   \<and> outer_side (MoonVisual 0.375) = Some RightSide
   \<and> terminator_side (MoonVisual 0.375) = Some LeftSide
   \<and> disc_area / 2 < enclosed_area (MoonVisual 0.375)
   \<and> enclosed_area (MoonVisual 0.375) < disc_area"
proof -
  have g: "MoonVisual p =
        [MoveTo 50 2, ArcTo 48 48 0 False (\<lfloor>4 * p\<rfloor> < 2) 50 98,
         ArcTo (48 * \<bar>cos (2 * pi * p)\<bar>) 48 0 False (\<lfloor>4 * p\<rfloor> = 1 \<or> \<lfloor>4 * p\<rfloor> = 2) 50 2]
      \<and> terminator_rx (MoonVisual p) = Some (48 * \<bar>cos (2 * pi * p)\<bar>)
      \<and> 0 \<le> 48 * \<bar>cos (2 * pi * p)\<bar>"
    if h: "0.01 \<le> p \<and> p \<le> 0.49 \<or> 0.51 \<le> p \<and> p \<le> 0.99"
  proof -
    from h have "0 \<le> p" "p < 1" by auto
    from regime_by_quarter [OF this] MoonVisual_outside_bands [OF h]
    have e: "MoonVisual p =
        [MoveTo 50 2, ArcTo 48 48 0 False (\<lfloor>4 * p\<rfloor> < 2) 50 98,
         ArcTo (48 * \<bar>cos (2 * pi * p)\<bar>) 48 0 False (\<lfloor>4 * p\<rfloor> = 1 \<or> \<lfloor>4 * p\<rfloor> = 2) 50 2]"
      by simp
    have "terminator_rx (MoonVisual p) = Some (48 * \<bar>cos (2 * pi * p)\<bar>)"
      unfolding e by simp
    with e show ?thesis by simp
  qed
  have a1: "enclosed_area (MoonVisual 0.125) < disc_area / 2"
    unfolding area_eighth using sqrt2_half disc_area_pos by simp
  have a2: "disc_area / 2 < enclosed_area (MoonVisual 0.375)"
    unfolding area_three_eighths using sqrt2_half disc_area_pos by simp
  have "disc_area / 2 * (1 + sqrt 2 / 2) < disc_area / 2 * (1 + 1)"
    using sqrt2_half disc_area_pos by (intro mult_strict_left_mono) simp_all
  then have a3: "enclosed_area (MoonVisual 0.375) < disc_area"
    unfolding area_three_eighths by simp
  show ?thesis using g a1 a2 a3 sides_eighth sides_three_eighths by blast
qed

text \<open>The hypothesis of C2 holds at phase 0.125, in quarter 0.\<close>

theorem C2_witness_mid_crescent:
  "(0.01::real) \<le> 0.125 \<and> (0.125::real) \<le> 0.49
   \<and> MoonVisual 0.125 =
        [MoveTo 50 2, ArcTo 48 48 0 False True 50 98,
         ArcTo (48 * (sqrt 2 / 2)) 48 0 False False 50 2]
   \<and> terminator_rx (MoonVisual 0.125) = Some (48 * (sqrt 2 / 2))"
proof -
  have f: "\<lfloor>4 * 0.125 :: real\<rfloor> = 0" by simp
  have h: "(0.01::real) \<le> 0.125 \<and> (0.125::real) \<le> 0.49 \<or> (0.51::real) \<le> 0.125 \<and> (0.125::real) \<le> 0.99"
    by simp
  from C2_regimes_by_quarter [of "0.125"] h
  have "MoonVisual 0.125 =
        [MoveTo 50 2, ArcTo 48 48 0 False (\<lfloor>4 * 0.125 :: real\<rfloor> < 2) 50 98,
         ArcTo (48 * \<bar>cos (2 * pi * 0.125)\<bar>) 48 0 False
           (\<lfloor>4 * 0.125 :: real\<rfloor> = 1 \<or> \<lfloor>4 * 0.125 :: real\<rfloor> = 2) 50 2]
      \<and> terminator_rx (MoonVisual 0.125) = Some (48 * \<bar>cos (2 * pi * 0.125)\<bar>)"
    by blast
  then show ?thesis unfolding f cos_eighth by simp
qed

subsection \<open>C8\<close>

lemma one_minus_cos_le: "1 - cos x \<le> x\<^sup>2 / 2" for x :: real
proof -
  have "cos x = 1 - 2 * (sin (x / 2))\<^sup>2"
    using cos_double_sin [of "x / 2"] by simp
  moreover have "(sin (x / 2))\<^sup>2 \<le> (x / 2)\<^sup>2"
    using abs_sin_x_le_abs_x [of "x / 2"] by (simp only: abs_le_square_iff)
  ultimately show ?thesis by (simp add: power2_eq_square)
qed

lemma cos_just_after_full: "1 - \<bar>cos (2 * pi * 0.51)\<bar> \<le> 1 - cos (pi / 50)"
proof -
  have "2 * pi * 0.51 = pi / 50 + pi" by simp
  then have "cos (2 * pi * 0.51) = - cos (pi / 50)" by (simp only: cos_periodic_pi)
  then show ?thesis by simp
qed

lemma area_just_after_full: "enclosed_area (MoonVisual 0.51) < disc_area / 500"
proof -
  have "MoonVisual 0.51 = MoonVisual_regime 0.51" by (rule MoonVisual_outside_bands) simp
  then have a: "enclosed_area (MoonVisual 0.51) = disc_area / 2 * (1 - \<bar>cos (2 * pi * 0.51)\<bar>)"
    by (simp only: regime_area) simp
  have "pi\<^sup>2 < 4\<^sup>2" using pi_less_4 pi_gt_zero by (intro power_strict_mono) simp_all
  then have "(pi / 50)\<^sup>2 / 2 < 1 / 250" by (simp add: power2_eq_square)
  with one_minus_cos_le [of "pi / 50"] cos_just_after_full
  have "1 - \<bar>cos (2 * pi * 0.51)\<bar> < 1 / 250" by linarith
  then have "disc_area / 2 * (1 - \<bar>cos (2 * pi * 0.51)\<bar>) < disc_area / 2 * (1 / 250)"
    using disc_area_pos by (intro mult_strict_left_mono) simp_all
  then show ?thesis unfolding a by simp
qed

lemma area_just_before: "enclosed_area (MoonVisual 0.509) = disc_area"
proof -
  have "MoonVisual 0.509 = full_circle" by (rule MoonVisual_full_band) simp
  then show ?thesis by (simp only: full_circle_area)
qed

text \<open>
  The two regime formulas that meet at 0.5, without the overriding assignments: the path
  of the second quarter tends to the full disc, the path of the third quarter to
  nothing.
\<close>

lemma regime_limit_left:
  "((\<lambda>p. enclosed_area (MoonVisual_regime p)) \<longlongrightarrow> disc_area) (at_left 0.5)"
proof -
  have "((\<lambda>p. disc_area / 2 * (1 + \<bar>cos (2 * pi * p)\<bar>)) \<longlongrightarrow>
           disc_area / 2 * (1 + \<bar>cos (2 * pi * 0.5)\<bar>)) (at_left 0.5)"
    by (intro tendsto_intros)
  then have l: "((\<lambda>p. disc_area / 2 * (1 + \<bar>cos (2 * pi * p)\<bar>)) \<longlongrightarrow> disc_area) (at_left 0.5)"
    by simp
  have "eventually (\<lambda>p. disc_area / 2 * (1 + \<bar>cos (2 * pi * p)\<bar>) = enclosed_area (MoonVisual_regime p))
          (at_left 0.5)"
    unfolding eventually_at_left_field
    by (rule exI [of _ "0.25"]) (simp add: regime_area)
  with l show ?thesis by (rule Lim_transform_eventually)
qed

lemma regime_limit_right:
  "((\<lambda>p. enclosed_area (MoonVisual_regime p)) \<longlongrightarrow> 0) (at_right 0.5)"
proof -
  have "((\<lambda>p. disc_area / 2 * (1 - \<bar>cos (2 * pi * p)\<bar>)) \<longlongrightarrow>
           disc_area / 2 * (1 - \<bar>cos (2 * pi * 0.5)\<bar>)) (at_right 0.5)"
    by (intro tendsto_intros)
  then have l: "((\<lambda>p. disc_area / 2 * (1 - \<bar>cos (2 * pi * p)\<bar>)) \<longlongrightarrow> 0) (at_right 0.5)"
    by simp
  have "eventually (\<lambda>p. disc_area / 2 * (1 - \<bar>cos (2 * pi * p)\<bar>) = enclosed_area (MoonVisual_regime p))
          (at_right 0.5)"
    unfolding eventually_at_right_field
    by (rule exI [of _ "0.75"]) (simp add: regime_area)
  with l show ?thesis by (rule Lim_transform_eventually)
qed

lemma sides_just_after_full:
  "outer_side (MoonVisual 0.51) = Some LeftSide"
  "terminator_side (MoonVisual 0.51) = Some LeftSide"
  by (simp_all add: MoonVisual_def MoonVisual_regime_def Let_def)

text \<open>
  In the waning half the outer arc passes on the left. The terminator of the third
  quarter passes on the left too, and the terminator of the fourth on the right.
\<close>

lemma waning_sides:
  "0.5 \<le> p \<Longrightarrow> outer_side (MoonVisual_regime p) = Some LeftSide"
  "0.5 \<le> p \<Longrightarrow> p < 0.75 \<Longrightarrow> terminator_side (MoonVisual_regime p) = Some LeftSide"
  "0.75 \<le> p \<Longrightarrow> terminator_side (MoonVisual_regime p) = Some RightSide"
  by (simp_all add: MoonVisual_regime_def)

text \<open>
  At 0.25 and 0.75 the terminator degenerates to the chord and both neighbouring
  regimes give half the disc: the area is continuous there. Around 0.5 the full-moon
  band holds the area at the disc's, so it is continuous at 0.5 as well.
\<close>

lemma area_near_half_disc:
  assumes "0.01 \<le> p \<and> p \<le> 0.49 \<or> 0.51 \<le> p \<and> p \<le> 0.99"
  shows "\<bar>enclosed_area (MoonVisual p) - disc_area / 2\<bar> = disc_area / 2 * \<bar>cos (2 * pi * p)\<bar>"
proof -
  have nn: "0 \<le> disc_area / 2 * \<bar>cos (2 * pi * p)\<bar>" using disc_area_pos by simp
  have "enclosed_area (MoonVisual p) - disc_area / 2 = disc_area / 2 * \<bar>cos (2 * pi * p)\<bar>
      \<or> enclosed_area (MoonVisual p) - disc_area / 2 = - (disc_area / 2 * \<bar>cos (2 * pi * p)\<bar>)"
    unfolding MoonVisual_outside_bands [OF assms] regime_area by (simp add: algebra_simps)
  then show ?thesis using nn by (auto simp only: abs_minus abs_of_nonneg)
qed

lemma area_cont_quarter:
  assumes q: "q = 0.25 \<or> q = 0.75"
  shows "isCont (\<lambda>p. enclosed_area (MoonVisual p)) q"
proof -
  have c0: "cos (2 * pi * q) = 0"
    using q
  proof
    assume "q = 0.25"
    then have "2 * pi * q = pi / 2" by simp
    then show ?thesis by (simp only: cos_pi_half)
  next
    assume "q = 0.75"
    then have "2 * pi * q = 3 / 2 * pi" by simp
    then show ?thesis by (simp only: cos_3over2_pi)
  qed
  have "((\<lambda>p. disc_area / 2 * \<bar>cos (2 * pi * p)\<bar>) \<longlongrightarrow> disc_area / 2 * \<bar>cos (2 * pi * q)\<bar>) (at q)"
    by (intro tendsto_intros)
  then have l: "((\<lambda>p. disc_area / 2 * \<bar>cos (2 * pi * p)\<bar>) \<longlongrightarrow> 0) (at q)"
    by (simp add: c0)
  have "eventually (\<lambda>p. disc_area / 2 * \<bar>cos (2 * pi * p)\<bar> = \<bar>enclosed_area (MoonVisual p) - disc_area / 2\<bar>) (at q)"
    unfolding eventually_at
  proof (intro exI [of _ "0.2"] conjI ballI impI)
    show "(0::real) < 0.2" by simp
    fix p assume "p \<in> UNIV" "p \<noteq> q \<and> dist p q < 0.2"
    then have "\<bar>p - q\<bar> < 0.2" by (simp add: dist_real_def)
    then have d: "p - q < 0.2" "- (p - q) < 0.2" by (simp_all only: abs_less_iff)
    from q have "0.01 \<le> p \<and> p \<le> 0.49 \<or> 0.51 \<le> p \<and> p \<le> 0.99"
    proof
      assume "q = 0.25"
      with d have "0.05 < p" "p < 0.45" by simp_all
      then show ?thesis by simp
    next
      assume "q = 0.75"
      with d have "0.55 < p" "p < 0.95" by simp_all
      then show ?thesis by simp
    qed
    then show "disc_area / 2 * \<bar>cos (2 * pi * p)\<bar> = \<bar>enclosed_area (MoonVisual p) - disc_area / 2\<bar>"
      by (simp only: area_near_half_disc)
  qed
  with l have "((\<lambda>p. \<bar>enclosed_area (MoonVisual p) - disc_area / 2\<bar>) \<longlongrightarrow> 0) (at q)"
    by (rule Lim_transform_eventually)
  then have "((\<lambda>p. enclosed_area (MoonVisual p) - disc_area / 2) \<longlongrightarrow> 0) (at q)"
    by (rule tendsto_rabs_zero_cancel)
  then have "((\<lambda>p. enclosed_area (MoonVisual p)) \<longlongrightarrow> disc_area / 2) (at q)"
    by (rule LIM_zero_cancel)
  moreover have "enclosed_area (MoonVisual q) = disc_area / 2"
  proof -
    have "0.01 \<le> q \<and> q \<le> 0.49 \<or> 0.51 \<le> q \<and> q \<le> 0.99" using q by auto
    from area_near_half_disc [OF this] show ?thesis by (simp add: c0)
  qed
  ultimately show ?thesis unfolding isCont_def by (simp only:)
qed

lemma area_cont_full: "isCont (\<lambda>p. enclosed_area (MoonVisual p)) 0.5"
proof -
  have "eventually (\<lambda>p. disc_area = enclosed_area (MoonVisual p)) (at 0.5)"
    unfolding eventually_at
  proof (intro exI [of _ "0.01"] conjI ballI impI)
    show "(0::real) < 0.01" by simp
    fix p :: real assume "p \<in> UNIV" "p \<noteq> 0.5 \<and> dist p 0.5 < 0.01"
    then have "\<bar>p - 0.5\<bar> < 0.01" by (simp add: dist_real_def)
    then show "disc_area = enclosed_area (MoonVisual p)"
      by (simp only: MoonVisual_full_band full_circle_area)
  qed
  with tendsto_const have "((\<lambda>p. enclosed_area (MoonVisual p)) \<longlongrightarrow> disc_area) (at 0.5)"
    by (rule Lim_transform_eventually)
  moreover have "enclosed_area (MoonVisual 0.5) = disc_area"
    by (simp add: MoonVisual_full_band full_circle_area)
  ultimately show ?thesis unfolding isCont_def by (simp only:)
qed

text \<open>
  C8. The claim is that the enclosed area changes continuously as the phase crosses
  0.25, 0.5 and 0.75, the areas of the two adjacent regime formulas (or special case)
  agreeing in the limit. At 0.5 the two regime formulas do not agree: from the left the
  area of the second quarter's path tends to the disc's, from the right the area of the
  third quarter's path, whose terminator passes on the same side as its outer arc,
  tends to 0. The full-moon band hides the break at 0.5 itself and moves it to the end
  of the band: the area is the disc's at phase 0.509 and less than 1/500 of the disc's
  at phase 0.51, where outer arc and terminator both pass on the left.
\<close>

theorem C8_area_drops_after_full_moon:
  "((\<lambda>p. enclosed_area (MoonVisual_regime p)) \<longlongrightarrow> disc_area) (at_left 0.5)
   \<and> ((\<lambda>p. enclosed_area (MoonVisual_regime p)) \<longlongrightarrow> 0) (at_right 0.5)
   \<and> enclosed_area (MoonVisual 0.509) = disc_area
   \<and> enclosed_area (MoonVisual 0.51) < disc_area / 500
   \<and> outer_side (MoonVisual 0.51) = Some LeftSide
   \<and> terminator_side (MoonVisual 0.51) = Some LeftSide"
  using regime_limit_left regime_limit_right area_just_before area_just_after_full
    sides_just_after_full
  by simp

section \<open>The digits of pi\<close>

lemma arctan_partial_sums:
  fixes x :: real
  assumes x: "0 \<le> x" "x \<le> 1"
  shows "(\<Sum>i<2 * n. (- 1) ^ i * (1 / real (i * 2 + 1) * x ^ (i * 2 + 1))) \<le> arctan x"
    and "arctan x \<le> (\<Sum>i<2 * n + 1. (- 1) ^ i * (1 / real (i * 2 + 1) * x ^ (i * 2 + 1)))"
proof -
  let ?a = "\<lambda>n. 1 / real (n * 2 + 1) * x ^ (n * 2 + 1)"
  have ax: "\<bar>x\<bar> \<le> 1" using x by simp
  have z: "?a \<longlonglongrightarrow> 0" by (rule zeroseq_arctan_series [OF ax])
  have p: "0 \<le> ?a n" for n using x by simp
  have m: "?a (Suc n) \<le> ?a n" for n
  proof -
    have "x ^ (Suc n * 2 + 1) \<le> x ^ (n * 2 + 1)"
      using x by (intro power_decreasing) simp_all
    moreover have "1 / real (Suc n * 2 + 1) \<le> 1 / real (n * 2 + 1)"
      by (simp add: field_simps)
    ultimately show ?thesis
      using x by (intro mult_mono) simp_all
  qed
  have s: "arctan x = (\<Sum>k. (- 1) ^ k * ?a k)" by (rule arctan_series [OF ax])
  show "(\<Sum>i<2 * n. (- 1) ^ i * ?a i) \<le> arctan x"
    unfolding s by (rule summable_Leibniz'(2) [OF z p m])
  show "arctan x \<le> (\<Sum>i<2 * n + 1. (- 1) ^ i * ?a i)"
    unfolding s by (rule summable_Leibniz'(4) [OF z p m])
qed

lemma sum_4: "(\<Sum>i<4. f i) = f 0 + f 1 + f 2 + f (3::nat)" for f :: "nat \<Rightarrow> real"
  by (simp add: numeral_eq_Suc)

lemma sum_5: "(\<Sum>i<5. f i) = f 0 + f 1 + f 2 + f 3 + f (4::nat)" for f :: "nat \<Rightarrow> real"
  by (simp add: numeral_eq_Suc)

lemma sum_14: "(\<Sum>i<14. f i) = f 0 + f 1 + f 2 + f 3 + f 4 + f 5 + f 6 + f 7 + f 8 + f 9
    + f 10 + f 11 + f 12 + f (13::nat)" for f :: "nat \<Rightarrow> real"
  by (simp add: numeral_eq_Suc)

lemma sum_15: "(\<Sum>i<15. f i) = f 0 + f 1 + f 2 + f 3 + f 4 + f 5 + f 6 + f 7 + f 8 + f 9
    + f 10 + f 11 + f 12 + f 13 + f (14::nat)" for f :: "nat \<Rightarrow> real"
  by (simp add: numeral_eq_Suc)

lemma arctan_fifth:
  "197395559849880758369 / 10 ^ 21 < arctan (1 / 5)"
  "arctan (1 / 5) < 197395559849880758371 / 10 ^ 21"
proof -
  have "197395559849880758369 / 10 ^ 21
      < (\<Sum>i<2 * 7. (- 1) ^ i * (1 / real (i * 2 + 1) * (1 / 5 :: real) ^ (i * 2 + 1)))"
    by (simp add: sum_14 power_one_over)
  also have "\<dots> \<le> arctan (1 / 5)" by (rule arctan_partial_sums) simp_all
  finally show "197395559849880758369 / 10 ^ 21 < arctan (1 / 5)" .
  have "arctan (1 / 5)
      \<le> (\<Sum>i<2 * 7 + 1. (- 1) ^ i * (1 / real (i * 2 + 1) * (1 / 5 :: real) ^ (i * 2 + 1)))"
    by (rule arctan_partial_sums) simp_all
  also have "\<dots> < 197395559849880758371 / 10 ^ 21"
    by (simp add: sum_15 power_one_over)
  finally show "arctan (1 / 5) < 197395559849880758371 / 10 ^ 21" .
qed

lemma arctan_239th:
  "418407600207472386449 / 10 ^ 23 < arctan (1 / 239)"
  "arctan (1 / 239) < 418407600207472386454 / 10 ^ 23"
proof -
  have "418407600207472386449 / 10 ^ 23
      < (\<Sum>i<2 * 2. (- 1) ^ i * (1 / real (i * 2 + 1) * (1 / 239 :: real) ^ (i * 2 + 1)))"
    by (simp add: sum_4 power_one_over)
  also have "\<dots> \<le> arctan (1 / 239)" by (rule arctan_partial_sums) simp_all
  finally show "418407600207472386449 / 10 ^ 23 < arctan (1 / 239)" .
  have "arctan (1 / 239)
      \<le> (\<Sum>i<2 * 2 + 1. (- 1) ^ i * (1 / real (i * 2 + 1) * (1 / 239 :: real) ^ (i * 2 + 1)))"
    by (rule arctan_partial_sums) simp_all
  also have "\<dots> < 418407600207472386454 / 10 ^ 23"
    by (simp add: sum_5 power_one_over)
  finally show "arctan (1 / 239) < 418407600207472386454 / 10 ^ 23" .
qed

lemma pi_digits:
  "31415926535897932384 / 10 ^ 19 < pi" "pi < 31415926535897932385 / 10 ^ 19"
proof -
  have "pi = 16 * arctan (1 / 5) - 4 * arctan (1 / 239)"
    using machin by simp
  then show "31415926535897932384 / 10 ^ 19 < pi" "pi < 31415926535897932385 / 10 ^ 19"
    using arctan_fifth arctan_239th by simp_all
qed


section \<open>The illuminated fraction\<close>

lemma rne_near:
  assumes "\<bar>x - real_of_int n\<bar> < 1 / 2"
  shows "rne x = n"
proof (cases "real_of_int n \<le> x")
  case True
  then have "\<lfloor>x\<rfloor> = n" using assms by linarith
  then show ?thesis using assms True by (simp add: rne_def Let_def)
next
  case False
  then have "\<lfloor>x\<rfloor> = n - 1" using assms by linarith
  then show ?thesis using assms False by (simp add: rne_def Let_def)
qed

lemma Math_cos_UTC: "Math_cos UTC x = fl64 (cos x)"
  by (simp add: UTC_def)

lemma Math_PI_value: "Math_PI = 7074237752028440 / 2 ^ 51"
proof -
  have e: "fl64 pi = real_of_int (rne (pi / 2 powr real_of_int (1 - 52))) * 2 powr real_of_int (1 - 52)"
    using pi_digits by (intro fl64_at_exponent) simp_all
  have p: "2 powr real_of_int (1 - 52) = 1 / 2 ^ 51"
    by (simp add: powr_minus_divide)
  have r: "rne (pi / (1 / 2 ^ 51)) = 7074237752028440"
    using pi_digits by (intro rne_near) simp
  show ?thesis unfolding Math_PI_def e p r by simp
qed

lemma sin_lower: "x - x ^ 3 / 6 \<le> sin x" if "0 \<le> x" for x :: real
proof -
  have "\<bar>sin x - (\<Sum>m<3. sin_coeff m * x ^ m)\<bar> \<le> inverse (fact 3) * \<bar>x\<bar> ^ 3"
    by (rule Maclaurin_sin_bound)
  moreover have "(\<Sum>m<3. sin_coeff m * x ^ m) = x"
    by (simp add: sin_coeff_def numeral_eq_Suc)
  moreover have "inverse (fact 3) * \<bar>x\<bar> ^ 3 = x ^ 3 / 6"
    using that by (simp add: fact_numeral)
  ultimately show ?thesis by linarith
qed

lemma sin_small:
  fixes x :: real
  assumes "0 \<le> x" "x \<le> 1 / 10 ^ 8"
  shows "x - x / 10 ^ 16 \<le> sin x" "sin x \<le> x"
proof -
  have "x * x \<le> (1 / 10 ^ 8) * (1 / 10 ^ 8)"
    using assms by (intro mult_mono) simp_all
  then have "x * x * x \<le> (1 / 10 ^ 16) * x"
    using assms(1) by (intro mult_right_mono) simp_all
  then have "x ^ 3 / 6 \<le> x / 10 ^ 16"
    using assms(1) by (simp add: power3_eq_cube)
  then show "x - x / 10 ^ 16 \<le> sin x" using sin_lower [OF assms(1)] by linarith
  show "sin x \<le> x" by (rule sin_x_le_x [OF assms(1)])
qed

text \<open>The distance of \<open>Math.PI\<close> from pi.\<close>

lemma pi_gap:
  "1224 / 10 ^ 19 < pi - 7074237752028440 / 2 ^ 51"
  "pi - 7074237752028440 / 2 ^ 51 < 1226 / 10 ^ 19"
  using pi_digits by simp_all

lemma fl64_half: "fl64 (1 / 2) = 1 / 2"
  using fl64_dyadic [of 1 1] by simp

lemma fl64_one: "fl64 1 = 1"
  using fl64_dyadic [of 1 0] by simp

lemma fl64_two: "fl64 2 = 2"
  using fl64_dyadic [of 2 0] by simp

lemma fl64_three_halves: "fl64 (3 / 2) = 3 / 2"
  using fl64_dyadic [of 3 1] by simp

text \<open>Phase 0.25: the angle is half of \<open>Math.PI\<close>, a little less than a right angle.\<close>

lemma cos_quarter:
  "61 / 10 ^ 18 < fl64 (cos (7074237752028440 / 2 ^ 52))"
  "fl64 (cos (7074237752028440 / 2 ^ 52)) < 62 / 10 ^ 18"
proof -
  define y :: real where "y = pi / 2 - 7074237752028440 / 2 ^ 52"
  have y: "612 / 10 ^ 19 < y" "y < 613 / 10 ^ 19"
    using pi_gap by (simp_all add: y_def)
  have "cos (7074237752028440 / 2 ^ 52) = cos (pi / 2 - y)" by (simp add: y_def)
  also have "\<dots> = sin y" using sin_cos_eq [of y] by simp
  finally have c: "cos (7074237752028440 / 2 ^ 52) = sin y" .
  have s: "y - y / 10 ^ 16 \<le> sin y" "sin y \<le> y"
    using y by (intro sin_small; simp)+
  have "\<bar>fl64 (sin y) - sin y\<bar> \<le> \<bar>sin y\<bar> / 2 ^ 53 + 1 / 2 ^ 100" by (rule fl64_err)
  then show "61 / 10 ^ 18 < fl64 (cos (7074237752028440 / 2 ^ 52))"
    "fl64 (cos (7074237752028440 / 2 ^ 52)) < 62 / 10 ^ 18"
    unfolding c using s y by (simp_all add: abs_le_iff)
qed

lemma fraction_quarter: "fraction_of UTC (1 / 4) = 1 / 2 - 1 / 2 ^ 54"
proof -
  define c where "c = fl64 (cos (7074237752028440 / 2 ^ 52))"
  have c: "61 / 10 ^ 18 < c" "c < 62 / 10 ^ 18"
    using cos_quarter by (simp_all add: c_def)
  have a: "fl64 (1 / 2 * (7074237752028440 / 2 ^ 51)) = 7074237752028440 / 2 ^ 52"
    using fl64_dyadic [of 7074237752028440 52] by simp
  have e: "fl64 (1 - c) = real_of_int (rne ((1 - c) / 2 powr real_of_int (- 1 - 52)))
      * 2 powr real_of_int (- 1 - 52)"
    using c by (intro fl64_at_exponent) (simp_all add: powr_minus_divide)
  have p: "2 powr real_of_int (- 1 - 52) = 1 / 2 ^ 53"
    by (simp add: powr_minus_divide)
  have r: "rne ((1 - c) / (1 / 2 ^ 53)) = 9007199254740991"
    using c by (intro rne_near) simp
  have y: "fl64 (1 - c) = 9007199254740991 / 2 ^ 53"
    unfolding e p r by simp
  have f: "fl64 (1 / 2 * (9007199254740991 / 2 ^ 53)) = 9007199254740991 / 2 ^ 54"
    using fl64_dyadic [of 9007199254740991 54] by simp
  have "fraction_of UTC (1 / 4)
      = fl64 (1 / 2 * fl64 (1 - fl64 (cos (fl64 (fl64 (1 / 2) * Math_PI)))))"
    by (simp add: fraction_of_def Let_def Math_cos_UTC)
  also have "\<dots> = 9007199254740991 / 2 ^ 54"
    unfolding fl64_half Math_PI_value a c_def [symmetric] y f ..
  finally show ?thesis by simp
qed

text \<open>
  Phase 0.75: the angle is three halves of \<open>Math.PI\<close>, a little less than three right
  angles.
\<close>

lemma cos_three_quarters:
  "- (19 / 10 ^ 17) < fl64 (cos (5305678314021330 / 2 ^ 50))"
  "fl64 (cos (5305678314021330 / 2 ^ 50)) < - (18 / 10 ^ 17)"
proof -
  define y :: real where "y = 3 * pi / 2 - 5305678314021330 / 2 ^ 50"
  have y: "1836 / 10 ^ 19 < y" "y < 1839 / 10 ^ 19"
    using pi_gap by (simp_all add: y_def)
  have z: "cos (3 * pi / 2) = 0" "sin (3 * pi / 2) = - 1"
    using cos_3over2_pi sin_3over2_pi by simp_all
  have "cos (5305678314021330 / 2 ^ 50) = cos (3 * pi / 2 - y)" by (simp add: y_def)
  also have "\<dots> = - sin y" unfolding cos_diff z by simp
  finally have c: "cos (5305678314021330 / 2 ^ 50) = - sin y" .
  have s: "y - y / 10 ^ 16 \<le> sin y" "sin y \<le> y"
    using y by (intro sin_small; simp)+
  have "\<bar>fl64 (- sin y) - (- sin y)\<bar> \<le> \<bar>- sin y\<bar> / 2 ^ 53 + 1 / 2 ^ 100" by (rule fl64_err)
  then show "- (19 / 10 ^ 17) < fl64 (cos (5305678314021330 / 2 ^ 50))"
    "fl64 (cos (5305678314021330 / 2 ^ 50)) < - (18 / 10 ^ 17)"
    unfolding c using s y by (simp_all add: abs_le_iff)
qed

lemma fraction_three_quarters: "fraction_of UTC (3 / 4) = 1 / 2 + 1 / 2 ^ 53"
proof -
  define c where "c = fl64 (cos (5305678314021330 / 2 ^ 50))"
  have c: "- (19 / 10 ^ 17) < c" "c < - (18 / 10 ^ 17)"
    using cos_three_quarters by (simp_all add: c_def)
  have a: "fl64 (3 / 2 * (7074237752028440 / 2 ^ 51)) = 5305678314021330 / 2 ^ 50"
    using fl64_dyadic [of 5305678314021330 50] by simp
  have e: "fl64 (1 - c) = real_of_int (rne ((1 - c) / 2 powr real_of_int (0 - 52)))
      * 2 powr real_of_int (0 - 52)"
    using c by (intro fl64_at_exponent) simp_all
  have p: "2 powr real_of_int (0 - 52) = 1 / 2 ^ 52"
    by (simp add: powr_minus_divide)
  have r: "rne ((1 - c) / (1 / 2 ^ 52)) = 4503599627370497"
    using c by (intro rne_near) simp
  have y: "fl64 (1 - c) = 4503599627370497 / 2 ^ 52"
    unfolding e p r by simp
  have f: "fl64 (1 / 2 * (4503599627370497 / 2 ^ 52)) = 4503599627370497 / 2 ^ 53"
    using fl64_dyadic [of 4503599627370497 53] by simp
  have "fraction_of UTC (3 / 4)
      = fl64 (1 / 2 * fl64 (1 - fl64 (cos (fl64 (fl64 (3 / 2) * Math_PI)))))"
    by (simp add: fraction_of_def Let_def Math_cos_UTC)
  also have "\<dots> = 4503599627370497 / 2 ^ 53"
    unfolding fl64_three_halves Math_PI_value a c_def [symmetric] y f ..
  finally show ?thesis by simp
qed

text \<open>Phase 0.5: the angle is \<open>Math.PI\<close>, and its cosine rounds to -1.\<close>

lemma cos_half: "fl64 (cos (7074237752028440 / 2 ^ 51)) = - 1"
proof -
  define y :: real where "y = pi - 7074237752028440 / 2 ^ 51"
  have y: "0 < y" "y < 1 / 10 ^ 15"
    using pi_gap by (simp_all add: y_def)
  define x where "x = - cos y"
  have "cos (7074237752028440 / 2 ^ 51) = cos (pi - y)" by (simp add: y_def)
  also have "\<dots> = x" by (simp add: x_def)
  finally have c: "cos (7074237752028440 / 2 ^ 51) = x" .
  have "y * y \<le> (1 / 10 ^ 15) * (1 / 10 ^ 15)"
    using y by (intro mult_mono) simp_all
  then have "1 - cos y \<le> 1 / 10 ^ 30"
    using one_minus_cos_le [of y] by (simp add: power2_eq_square)
  then have x: "- 1 \<le> x" "x \<le> - 1 + 1 / 10 ^ 30"
    using cos_le_one [of y] by (simp_all add: x_def)
  have "fl64 x = - 1"
  proof (cases "x = - 1")
    case True
    then show ?thesis using fl64_dyadic [of "- 1" 0] by simp
  next
    case False
    have e: "fl64 x = real_of_int (rne (x / 2 powr real_of_int (- 1 - 52)))
        * 2 powr real_of_int (- 1 - 52)"
      using x False by (intro fl64_at_exponent) (simp_all add: powr_minus_divide)
    have p: "2 powr real_of_int (- 1 - 52) = 1 / 2 ^ 53"
      by (simp add: powr_minus_divide)
    have r: "rne (x / (1 / 2 ^ 53)) = - 9007199254740992"
      using x by (intro rne_near) simp
    show ?thesis unfolding e p r by simp
  qed
  then show ?thesis unfolding c .
qed

lemma fraction_half: "fraction_of UTC (1 / 2) = 1"
proof -
  have a: "fl64 (1 * (7074237752028440 / 2 ^ 51)) = 7074237752028440 / 2 ^ 51"
    using fl64_dyadic [of 7074237752028440 51] by simp
  have "fraction_of UTC (1 / 2)
      = fl64 (1 / 2 * fl64 (1 - fl64 (cos (fl64 (fl64 1 * Math_PI)))))"
    by (simp add: fraction_of_def Let_def Math_cos_UTC)
  also have "\<dots> = 1"
    unfolding fl64_one Math_PI_value a cos_half by (simp add: fl64_two fl64_one)
  finally show ?thesis .
qed

text \<open>Phase 0, on every host whose cosine of 0 is 1, as the language requires.\<close>

lemma fraction_zero: "Math_cos h 0 = 1 \<Longrightarrow> fraction_of h 0 = 0"
  by (simp add: fraction_of_def Let_def fl64_def)

lemma Math_cos_UTC_zero: "Math_cos UTC 0 = 1"
  by (simp add: Math_cos_UTC fl64_one)

text \<open>The accuracy of the fraction on a host whose cosine is accurate.\<close>

lemma cos_lipschitz: "\<bar>cos a - cos b\<bar> \<le> \<bar>a - b\<bar>" for a b :: real
proof -
  have "\<bar>cos a - cos b\<bar> = 2 * \<bar>sin ((a + b) / 2)\<bar> * \<bar>sin ((b - a) / 2)\<bar>"
    unfolding cos_diff_cos by (simp add: abs_mult)
  also have "\<dots> \<le> 2 * 1 * \<bar>(b - a) / 2\<bar>"
    by (intro mult_mono abs_sin_x_le_abs_x mult_nonneg_nonneg) simp_all
  finally show ?thesis by simp
qed

lemma prod_err:
  fixes a b a' b' :: real
  assumes "\<bar>a - a'\<bar> \<le> ea" "\<bar>b - b'\<bar> \<le> eb" "\<bar>a\<bar> \<le> A" "\<bar>b'\<bar> \<le> B"
  shows "\<bar>a * b - a' * b'\<bar> \<le> A * eb + B * ea"
proof -
  have "a * b - a' * b' = a * (b - b') + b' * (a - a')" by (simp add: algebra_simps)
  then have "\<bar>a * b - a' * b'\<bar> \<le> \<bar>a\<bar> * \<bar>b - b'\<bar> + \<bar>b'\<bar> * \<bar>a - a'\<bar>"
    by (simp add: abs_mult [symmetric]) 
  also have "\<dots> \<le> A * eb + B * ea"
    using assms by (intro add_mono mult_mono) simp_all
  finally show ?thesis .
qed

lemma Math_PI_close: "\<bar>Math_PI - pi\<bar> \<le> 4 / 2 ^ 53 + 1 / 2 ^ 100"
proof -
  have "\<bar>fl64 pi - pi\<bar> \<le> \<bar>pi\<bar> / 2 ^ 53 + 1 / 2 ^ 100" by (rule fl64_err)
  moreover have "\<bar>pi\<bar> / 2 ^ 53 \<le> 4 / 2 ^ 53"
    using pi_less_4 by (intro divide_right_mono) simp_all
  ultimately show ?thesis unfolding Math_PI_def by linarith
qed

lemma fl64_err_bound:
  assumes "\<bar>x\<bar> \<le> B"
  shows "\<bar>fl64 x - x\<bar> \<le> B / 2 ^ 53 + 1 / 2 ^ 100"
proof -
  have "\<bar>x\<bar> / 2 ^ 53 \<le> B / 2 ^ 53"
    using assms by (intro divide_right_mono) simp_all
  then show ?thesis using fl64_err [of x] by linarith
qed

lemma fraction_accuracy:
  assumes h: "\<And>x. \<bar>Math_cos h x - cos x\<bar> \<le> 1 / 2 ^ 52"
    and ph: "0 \<le> ph" "ph \<le> 1"
  shows "\<bar>fraction_of h ph - 0.5 * (1 - cos (ph * 2 * pi))\<bar> \<le> 1 / 2 ^ 48"
proof -
  define t :: real where "t = 1 / 2 ^ 100"
  define u :: real where "u = 1 / 2 ^ 53"
  have tu: "0 < t" "t \<le> u" "u \<le> 1 / 100" "28 * u \<le> 1 / 2 ^ 48"
    by (simp_all add: t_def u_def)
  have eb: "\<bar>fl64 x - x\<bar> \<le> B * u + t" if "\<bar>x\<bar> \<le> B" for x B
    using fl64_err_bound [OF that] by (simp add: t_def u_def)
  have hu: "\<bar>Math_cos h x - cos x\<bar> \<le> 2 * u" for x
    using h [of x] by (simp add: u_def)
  define a1 where "a1 = fl64 (ph * 2)"
  define angle where "angle = fl64 (a1 * Math_PI)"
  define c where "c = Math_cos h angle"
  define y where "y = fl64 (1 - c)"
  have f: "fraction_of h ph = fl64 (y / 2)"
    by (simp add: fraction_of_def Let_def a1_def angle_def c_def y_def)
  have "\<bar>ph * 2\<bar> \<le> 2" using ph by simp
  then have a1: "\<bar>a1 - ph * 2\<bar> \<le> 2 * u + t"
    unfolding a1_def by (rule eb)
  then have a1b: "\<bar>a1\<bar> \<le> 3" using ph tu by linarith
  have P: "\<bar>Math_PI - pi\<bar> \<le> 4 * u + t"
    using Math_PI_close by (simp add: t_def u_def)
  have pb: "\<bar>pi\<bar> \<le> 4" using pi_less_4 pi_gt_zero by simp
  have Pb: "\<bar>Math_PI\<bar> \<le> 5" using P pb tu by linarith
  define q where "q = a1 * Math_PI"
  define w where "w = ph * 2 * pi"
  have m: "\<bar>q - w\<bar> \<le> 3 * (4 * u + t) + 4 * (2 * u + t)"
    unfolding q_def w_def by (rule prod_err [OF a1 P a1b pb])
  have "\<bar>q\<bar> \<le> 15"
    unfolding q_def abs_mult using mult_mono [of "\<bar>a1\<bar>" 3 "\<bar>Math_PI\<bar>" 5] a1b Pb by simp
  then have "\<bar>fl64 q - q\<bar> \<le> 15 * u + t"
    by (rule eb)
  with m have an: "\<bar>fl64 q - w\<bar> \<le> 35 * u + 8 * t" by argo
  have c: "c = Math_cos h (fl64 q)" by (simp add: c_def angle_def q_def)
  have cc: "\<bar>c - cos w\<bar> \<le> 37 * u + 8 * t"
    using hu [of "fl64 q"] cos_lipschitz [of "fl64 q" w] an
    unfolding c by linarith
  have "\<bar>cos w\<bar> \<le> 1" by (rule abs_cos_le_one)
  with cc tu have cb: "\<bar>1 - c\<bar> \<le> 3" by linarith
  then have yy: "\<bar>y - (1 - c)\<bar> \<le> 3 * u + t"
    unfolding y_def by (rule eb)
  with cb tu have "\<bar>y / 2\<bar> \<le> 2" by linarith
  then have "\<bar>fl64 (y / 2) - y / 2\<bar> \<le> 2 * u + t"
    by (rule eb)
  with yy cc tu(1,2) have "\<bar>fl64 (y / 2) - (1 - cos w) / 2\<bar> \<le> 28 * u"
    by argo
  also note tu(4)
  finally have "\<bar>fl64 (y / 2) - (1 - cos w) / 2\<bar> \<le> 1 / 2 ^ 48" .
  then show ?thesis unfolding f w_def by simp
qed

lemma Math_cos_UTC_close: "\<bar>Math_cos UTC x - cos x\<bar> \<le> 1 / 2 ^ 52"
proof -
  have "\<bar>cos x\<bar> \<le> 1" by (rule abs_cos_le_one)
  then have "\<bar>fl64 (cos x) - cos x\<bar> \<le> 1 / 2 ^ 53 + 1 / 2 ^ 100"
    by (rule fl64_err_bound)
  then have "\<bar>fl64 (cos x) - cos x\<bar> \<le> 1 / 2 ^ 52" by simp
  then show ?thesis unfolding Math_cos_UTC .
qed

subsection \<open>C5\<close>

text \<open>
  C5 as stated fails. On a UTC host whose cosine is correctly rounded the fraction at
  phase 0.25 is \<open>1 / 2 - 1 / 2 ^ 54\<close>, the double 0.49999999999999994, and at phase
  0.75 it is \<open>1 / 2 + 1 / 2 ^ 53\<close>, the double 0.5000000000000001: neither is 0.5, the
  value of \<open>0.5 * (1 - cos (phase * 2 * pi))\<close> there. \<open>Math.PI\<close> is a little less than
  pi, so the cosines of the two angles are not 0.
\<close>

theorem C5_counterexample_quarter_phases:
  "fraction_of UTC 0.25 = 1 / 2 - 1 / 2 ^ 54 \<and> fraction_of UTC 0.25 \<noteq> 0.5
   \<and> fraction_of UTC 0.75 = 1 / 2 + 1 / 2 ^ 53 \<and> fraction_of UTC 0.75 \<noteq> 0.5
   \<and> 0.5 * (1 - cos (0.25 * 2 * pi)) = 0.5 \<and> 0.5 * (1 - cos (0.75 * 2 * pi)) = 0.5"
proof -
  have q: "fraction_of UTC 0.25 = 1 / 2 - 1 / 2 ^ 54"
    using fraction_quarter by simp
  have t: "fraction_of UTC 0.75 = 1 / 2 + 1 / 2 ^ 53"
    using fraction_three_quarters by simp
  have "cos (3 * pi / 2) = 0" using cos_3over2_pi by simp
  then have c: "0.5 * (1 - cos (0.25 * 2 * pi)) = 0.5" "0.5 * (1 - cos (0.75 * 2 * pi)) = 0.5"
    by simp_all
  show ?thesis unfolding q t using c by simp
qed

text \<open>
  C5, amended. The illuminated fraction of a snapshot is \<open>fraction_of\<close> of its phase:
  the formula \<open>0.5 * (1 - cos (phase * 2 * pi))\<close> evaluated in double arithmetic, with
  \<open>Math.PI\<close> for pi and the engine's cosine. On a host whose cosine is within
  \<open>1 / 2 ^ 52\<close> of the cosine, the fraction is within \<open>1 / 2 ^ 48\<close> of the value of the
  formula, for every phase in [0, 1]. At phase 0 it is exactly 0 on every host whose
  cosine of 0 is 1. On a UTC host whose cosine is correctly rounded it is exactly 0 at
  phase 0 and exactly 1 at phase 0.5, \<open>1 / 2 - 1 / 2 ^ 54\<close> at phase 0.25 and
  \<open>1 / 2 + 1 / 2 ^ 53\<close> at phase 0.75.
\<close>

theorem C5_illuminated_fraction_rounded:
  "fraction (getMoonData h date lat lng) = fraction_of h (phase (getMoonData h date lat lng))
   \<and> ((\<forall>x. \<bar>Math_cos h x - cos x\<bar> \<le> 1 / 2 ^ 52) \<and> 0 \<le> ph \<and> ph \<le> 1 \<longrightarrow>
        \<bar>fraction_of h ph - 0.5 * (1 - cos (ph * 2 * pi))\<bar> \<le> 1 / 2 ^ 48)
   \<and> (Math_cos h 0 = 1 \<longrightarrow> fraction_of h 0 = 0)
   \<and> fraction_of UTC 0 = 0
   \<and> fraction_of UTC 0.5 = 1
   \<and> fraction_of UTC 0.25 = 1 / 2 - 1 / 2 ^ 54
   \<and> fraction_of UTC 0.75 = 1 / 2 + 1 / 2 ^ 53"
proof -
  have "\<bar>fraction_of h ph - 0.5 * (1 - cos (ph * 2 * pi))\<bar> \<le> 1 / 2 ^ 48"
    if "\<forall>x. \<bar>Math_cos h x - cos x\<bar> \<le> 1 / 2 ^ 52" "0 \<le> ph" "ph \<le> 1"
    using that by (intro fraction_accuracy) simp_all
  moreover have "fraction_of UTC 0 = 0"
    by (rule fraction_zero [OF Math_cos_UTC_zero])
  moreover have "fraction_of UTC 0.5 = 1" using fraction_half by simp
  moreover have "fraction_of UTC 0.25 = 1 / 2 - 1 / 2 ^ 54"
    using fraction_quarter by simp
  moreover have "fraction_of UTC 0.75 = 1 / 2 + 1 / 2 ^ 53"
    using fraction_three_quarters by simp
  ultimately show ?thesis
    using fraction_getMoonData [of h date lat lng] fraction_zero [of h] by blast
qed

text \<open>
  The hypotheses of C5 hold on the UTC host, whose cosine is correctly rounded, at the
  phase 0.25.
\<close>

theorem C5_witness_UTC_quarter:
  "(\<forall>x. \<bar>Math_cos UTC x - cos x\<bar> \<le> 1 / 2 ^ 52) \<and> (0::real) \<le> 0.25 \<and> (0.25::real) \<le> 1
   \<and> \<bar>fraction_of UTC 0.25 - 0.5 * (1 - cos (0.25 * 2 * pi))\<bar> \<le> 1 / 2 ^ 48
   \<and> Math_cos UTC 0 = 1 \<and> fraction_of UTC 0 = 0"
proof -
  have h: "\<forall>x. \<bar>Math_cos UTC x - cos x\<bar> \<le> 1 / 2 ^ 52"
    using Math_cos_UTC_close by blast
  have r: "(0::real) \<le> 0.25 \<and> (0.25::real) \<le> 1" by simp
  from C5_illuminated_fraction_rounded [of UTC 0 0 0 "0.25"] h r
  have "\<bar>fraction_of UTC 0.25 - 0.5 * (1 - cos (0.25 * 2 * pi))\<bar> \<le> 1 / 2 ^ 48"
    "fraction_of UTC 0 = 0"
    by blast+
  with h r Math_cos_UTC_zero show ?thesis by blast
qed

end
